theory Spec2Isabelle
  imports Main "HOL-Library.Multiset" "HOL-Library.Word"
begin

section \<open>Failures\<close>

text \<open>
  The client reports failures in ways none of which is a return value in C++: the macro
  family \<^verbatim>\<open>XLA_CHECK\<close>, \<^verbatim>\<open>XLA_CHECK_EQ\<close>, \<^verbatim>\<open>XLA_CHECK_OK\<close>, \<^verbatim>\<open>XLA_ERROR\<close>, \<^verbatim>\<open>.value()\<close> on a
  \<^verbatim>\<open>StatusOr\<close> that holds an error, a check that fails inside a library call which returns
  no status, and undefined behaviour (dereferencing a null reference, indexing out of
  range, a failed \<^verbatim>\<open>dynamic_cast\<close>, \<^verbatim>\<open>at\<close> on a missing key). Each is a constructor here; a
  check carries the message streamed into it, or its condition where nothing is streamed.
  \<open>StatusError\<close> is an error status that reaches the caller as such.
\<close>

datatype failure =
    FatalError string
  | BadStatusAccess string
  | StatusError string
  | LibraryAbort string
  | NullDereference
  | BadCast
  | OutOfBounds
  | OutOfRange

definition propagated :: "failure \<Rightarrow> bool" where
  "propagated e = (case e of StatusError m \<Rightarrow> True | _ \<Rightarrow> False)"

text \<open>A \<^verbatim>\<open>StatusOr<T>\<close> of the libraries underneath: \<open>Inl\<close> the error message.\<close>

type_synonym 'a StatusOr = "string + 'a"

definition value_or_die :: "'a StatusOr \<Rightarrow> failure + 'a" where
  "value_or_die r = (case r of Inl msg \<Rightarrow> Inl (BadStatusAccess msg) | Inr v \<Rightarrow> Inr v)"

text \<open>
  Modelled from the spec: the macros \<^verbatim>\<open>XLA_CHECK\<close>, \<^verbatim>\<open>XLA_CHECK_EQ\<close>, \<^verbatim>\<open>XLA_CHECK_OK\<close> and
  \<^verbatim>\<open>XLA_ERROR\<close> are defined in \<^verbatim>\<open>debug_macros.h\<close>, which is not among the sources. The spec
  has two policies. Fatal checks are for contract violations: an unknown device string, a
  second initialization of the coordinator, its use before initialization, mismatched
  shard and device counts, missing output shardings, and the interface points that are
  not implemented; these are the uses of \<^verbatim>\<open>XLA_CHECK\<close>, \<^verbatim>\<open>XLA_CHECK_EQ\<close> and \<^verbatim>\<open>XLA_ERROR\<close> in
  the source, and a failure of one is \<open>FatalError\<close>. Propagated failures are for
  legitimate runtime errors, "an async copy future resolving to an error":
  \<^verbatim>\<open>TransferFromServer\<close> "fails (propagates) if the underlying copy-to-host operation does
  not complete successfully". That is the use of \<^verbatim>\<open>XLA_CHECK_OK\<close> on a status: a status that
  is not OK reaches the caller as \<open>StatusError\<close> with its message.
\<close>

definition XLA_CHECK_OK :: "'a StatusOr \<Rightarrow> failure + 'a" where
  "XLA_CHECK_OK r = (case r of Inl msg \<Rightarrow> Inl (StatusError msg) | Inr v \<Rightarrow> Inr v)"

text \<open>
  Modelled from the spec: \<^verbatim>\<open>ConsumeValue\<close> is a helper of the repository that is not among
  the sources. The spec has "any compilation error aborts the whole Compile call": an
  error status is a fatal failure, and a value is handed on.
\<close>

definition ConsumeValue :: "'a StatusOr \<Rightarrow> failure + 'a" where
  "ConsumeValue r = (case r of Inl msg \<Rightarrow> Inl (FatalError msg) | Inr v \<Rightarrow> Inr v)"

section \<open>Data model\<close>

record Shape =
  element_type :: nat
  dimensions :: "int list"

datatype OpShardingType = REPLICATED | MAXIMAL | TUPLE | OTHER | MANUAL

record OpSharding =
  sharding_type :: OpShardingType
  tile_assignment_dimensions :: "int list"
  tile_assignment_devices :: "int list"

record PjRtDevice =
  device_id :: int
  process_index :: int
  client_platform_name :: string

text \<open>
  An \<^verbatim>\<open>xla::ifrt::Array\<close>: the devices of its sharding, its element type and dimensions,
  and a number standing for the identity of the buffer. A \<^verbatim>\<open>tsl::RCReference\<close> to one
  is an option: \<open>None\<close> is the null reference.
\<close>

record Array =
  array_uid :: nat
  sharding_devices :: "PjRtDevice list"
  dtype :: nat
  array_dims :: "int list"

type_synonym ArrayRef = "Array option"

text \<open>
  Modelled from the spec: \<^verbatim>\<open>struct IfrtData\<close>, its constructors and \<^verbatim>\<open>HasSharding\<close> are
  declared in \<^verbatim>\<open>ifrt_computation_client.h\<close>, which is not among the sources. The spec's
  data model gives a handle a device string, a shape, a reference to a physical buffer and
  an optional sharding descriptor, whose "presence distinguishes sharded from unsharded
  handles". The source reads the fields \<^verbatim>\<open>buffer\<close> and \<^verbatim>\<open>sharding_\<close> (an optional, see
  \<^verbatim>\<open>GetDataSharding\<close>) and the accessors \<^verbatim>\<open>device()\<close> and \<^verbatim>\<open>shape()\<close>. It calls three
  constructors: with a device and a shape (a placeholder), with a buffer and an optional
  sharding besides, and with a device, a buffer and an optional sharding but no shape.
  A name of the source that ends in an underscore is not a name here and gets a suffix
  in its place: \<open>sharding_opt\<close>, \<open>client_ptr\<close>, \<open>coordinator_ptr\<close>, \<open>global_ordinals_map\<close>.
\<close>

record IfrtData =
  device :: string
  shape :: Shape
  buffer :: ArrayRef
  sharding_opt :: "OpSharding option"

definition HasSharding :: "IfrtData \<Rightarrow> bool" where
  "HasSharding d = (sharding_opt d \<noteq> None)"

definition IfrtData_placeholder :: "string \<Rightarrow> Shape \<Rightarrow> IfrtData" where
  "IfrtData_placeholder dev shp =
     \<lparr>device = dev, shape = shp, buffer = None, sharding_opt = None\<rparr>"

definition IfrtData_shaped ::
  "string \<Rightarrow> Shape \<Rightarrow> ArrayRef \<Rightarrow> OpSharding option \<Rightarrow> IfrtData" where
  "IfrtData_shaped dev shp buf sh =
     \<lparr>device = dev, shape = shp, buffer = buf, sharding_opt = sh\<rparr>"

text \<open>
  The constructor without a shape argument takes the shape from the buffer; how it does
  so is the parameter \<open>shape_of\<close>.
\<close>

definition IfrtData_of_buffer ::
  "(ArrayRef \<Rightarrow> Shape) \<Rightarrow> string \<Rightarrow> ArrayRef \<Rightarrow> OpSharding option \<Rightarrow> IfrtData" where
  "IfrtData_of_buffer shape_of dev buf sh =
     \<lparr>device = dev, shape = shape_of buf, buffer = buf, sharding_opt = sh\<rparr>"

definition GetSharding :: "IfrtData \<Rightarrow> failure + OpSharding" where
  "GetSharding d =
     (if HasSharding d
      then (case sharding_opt d of None \<Rightarrow> Inl NullDereference | Some s \<Rightarrow> Inr s)
      else Inl (FatalError ''Check HasSharding first''))"

definition GetDataSharding :: "IfrtData \<Rightarrow> OpSharding option" where
  "GetDataSharding handle = sharding_opt handle"

definition CreateDataPlaceholder :: "string \<Rightarrow> Shape \<Rightarrow> IfrtData" where
  "CreateDataPlaceholder dev shp = IfrtData_placeholder dev shp"

section \<open>The client\<close>

record PjRtClient =
  devices :: "PjRtDevice list"
  addressable_devices :: "PjRtDevice list"
  client_process_index :: int

record XlaCoordinator =
  global_rank :: int
  world_size :: int
  master_addr :: string
  port :: string

text \<open>
  The metrics the source bumps by name. The timed sections record wall-clock durations
  and are left out.
\<close>

record Metrics =
  StableHloCompileCounter :: int
  CreateCompileHandlesCounter :: int
  CreateDataHandlesCounter :: int
  ReplicateShardedDataCounter :: int
  OutboundDataMetric :: "int list"
  InboundDataMetric :: "int list"

text \<open>
  The fields of \<^verbatim>\<open>IfrtComputationClient\<close>. The two smart pointers are options; the two
  hash maps are association lists with one entry per key.
\<close>

record Client =
  client_ptr :: "PjRtClient option"
  coordinator_ptr :: "XlaCoordinator option"
  global_ordinals_map :: "(int \<times> int) list"
  string_to_device_map :: "(string \<times> PjRtDevice) list"
  operation_manager_devs :: "string list"
  replication_devices_ptr :: "string list option"
  metrics :: Metrics

definition spmd_device_str :: string where
  "spmd_device_str = ''SPMD:0''"

subsection \<open>Teardown\<close>

text \<open>
  The destructor assigns \<^verbatim>\<open>nullptr\<close> to \<^verbatim>\<open>client_\<close> and then to \<^verbatim>\<open>coordinator_\<close>; its comment
  has the device client depend on the runtime client that the coordinator tracks, "so the
  PjRtClient must be destroyed first". Assigning to a smart pointer that holds an object
  gives the object up; the trace records which one, in the order of the two statements.
\<close>

datatype teardown_event = ClientReleased | CoordinatorDestroyed

definition reset_client :: "Client \<Rightarrow> Client \<times> teardown_event list" where
  "reset_client c =
     (c\<lparr>client_ptr := None\<rparr>,
      (case client_ptr c of None \<Rightarrow> [] | Some p \<Rightarrow> [ClientReleased]))"

definition reset_coordinator :: "Client \<Rightarrow> Client \<times> teardown_event list" where
  "reset_coordinator c =
     (c\<lparr>coordinator_ptr := None\<rparr>,
      (case coordinator_ptr c of None \<Rightarrow> [] | Some k \<Rightarrow> [CoordinatorDestroyed]))"

definition destroy_IfrtComputationClient :: "Client \<Rightarrow> Client \<times> teardown_event list" where
  "destroy_IfrtComputationClient c =
     (case reset_client c of (c1, ev1) \<Rightarrow>
      (case reset_coordinator c1 of (c2, ev2) \<Rightarrow> (c2, ev1 @ ev2)))"

text \<open>\<open>strictly_before a b tr\<close>: no \<open>a\<close> stands at or after a \<open>b\<close> in the trace.\<close>

fun strictly_before :: "'a \<Rightarrow> 'a \<Rightarrow> 'a list \<Rightarrow> bool" where
  "strictly_before a b [] = True"
| "strictly_before a b (x # xs) =
     ((if x = b then a \<notin> set xs \<and> a \<noteq> b else True) \<and> strictly_before a b xs)"

subsection \<open>The coordinator\<close>

definition CoordinatorInitialized :: "Client \<Rightarrow> bool" where
  "CoordinatorInitialized c = (coordinator_ptr c \<noteq> None)"

text \<open>
  The constructor of \<^verbatim>\<open>XlaCoordinator\<close> connects to the coordination service and may
  fail; it is the parameter \<open>make_coordinator\<close>.
\<close>

definition InitializeCoordinator ::
  "(int \<Rightarrow> int \<Rightarrow> string \<Rightarrow> string \<Rightarrow> failure + XlaCoordinator) \<Rightarrow>
   Client \<Rightarrow> int \<Rightarrow> int \<Rightarrow> string \<Rightarrow> string \<Rightarrow> failure + Client" where
  "InitializeCoordinator make_coordinator c rank world addr prt =
     (if coordinator_ptr c \<noteq> None
      then Inl (FatalError ''Can only initialize the XlaCoordinator once.'')
      else (case make_coordinator rank world addr prt of
              Inl e \<Rightarrow> Inl e
            | Inr k \<Rightarrow> Inr (c\<lparr>coordinator_ptr := Some k\<rparr>)))"

definition GetCoordinator :: "Client \<Rightarrow> failure + XlaCoordinator" where
  "GetCoordinator c =
     (case coordinator_ptr c of
        None \<Rightarrow> Inl (FatalError ''XlaCoordinator has not been initialized'')
      | Some k \<Rightarrow> Inr k)"

text \<open>
  A process is a sequence of calls on the one client. A call that fails leaves the client
  as it was (the check comes before the assignment), so a run that goes on after a failure
  is covered as well as one that stops.
\<close>

datatype coordinator_call =
    CallInitialize int int string string
  | CallGet
  | CallInitialized

fun coordinator_step ::
  "(int \<Rightarrow> int \<Rightarrow> string \<Rightarrow> string \<Rightarrow> failure + XlaCoordinator) \<Rightarrow>
   Client \<Rightarrow> coordinator_call \<Rightarrow> Client \<times> bool" where
  "coordinator_step mk c (CallInitialize r w a p) =
     (case InitializeCoordinator mk c r w a p of
        Inl e \<Rightarrow> (c, False)
      | Inr c' \<Rightarrow> (c', True))"
| "coordinator_step mk c CallGet = (c, False)"
| "coordinator_step mk c CallInitialized = (c, False)"

text \<open>The number of calls of a run that moved the coordinator to initialized.\<close>

fun initializations ::
  "(int \<Rightarrow> int \<Rightarrow> string \<Rightarrow> string \<Rightarrow> failure + XlaCoordinator) \<Rightarrow>
   Client \<Rightarrow> coordinator_call list \<Rightarrow> nat" where
  "initializations mk c [] = 0"
| "initializations mk c (x # xs) =
     (case coordinator_step mk c x of
        (c', ok) \<Rightarrow> (if ok then 1 else 0) + initializations mk c' xs)"

subsection \<open>Assign\<close>

text \<open>
  \<^verbatim>\<open>Assign\<close> compares addresses, so handles live in a store here. The argument is any
  \<^verbatim>\<open>torch::lazy::BackendData\<close>; the cast to \<^verbatim>\<open>IfrtData\<close> fails on another kind of data.
\<close>

type_synonym addr = nat

datatype BackendData = IfrtObject IfrtData | ForeignData

type_synonym store = "addr \<Rightarrow> BackendData option"

definition Assign :: "store \<Rightarrow> addr \<Rightarrow> addr \<Rightarrow> failure + store" where
  "Assign h this data =
     (case h data of
        None \<Rightarrow> Inl NullDereference
      | Some ForeignData \<Rightarrow> Inl BadCast
      | Some (IfrtObject pjrt_data) \<Rightarrow>
          (if data \<noteq> this
           then (case h this of
                   Some (IfrtObject self) \<Rightarrow>
                     Inr (h(this \<mapsto> IfrtObject (self\<lparr>buffer := buffer pjrt_data\<rparr>)))
                 | _ \<Rightarrow> Inl NullDereference)
           else Inr h))"

section \<open>The libraries underneath\<close>

text \<open>
  Everything the client asks of IFRT, PjRt and XLA is a field of \<open>Ifrt\<close>: the client's
  behaviour is stated for every such library. A call that returns a \<^verbatim>\<open>StatusOr\<close> may fail.
  \<^verbatim>\<open>ConcreteSharding::Create\<close> returns a pointer and no status; \<open>Inl\<close> of its field is a check
  that fails inside the call, with its message. Byte sizes are \<^verbatim>\<open>int64_t\<close>.
\<close>

record TensorSource =
  tensor_device :: string
  tensor_shape :: Shape
  tensor_data :: "int list"

record Literal =
  literal_shape :: Shape
  literal_data :: "int list"

record ConcreteSharding =
  devices_list :: "PjRtDevice list"
  sharding_shape :: "int list"
  shard_shapes :: "int list list"

type_synonym XlaComputation = string

record Executable =
  executable_uid :: nat
  hlo_modules :: "string list StatusOr"
  output_shardings :: "OpSharding list option"

record ExecuteOptions =
  untuple_result :: bool
  strict_shape_checking :: bool
  multi_slice_config :: "nat option"

record CompileOptions =
  use_spmd_partitioning :: bool
  allow_spmd_sharding_propagation_to_output :: "bool list"
  num_partitions :: int
  num_replicas :: int
  parameter_is_tupled_arguments :: bool
  device_assignment :: "int list list option"

definition default_CompileOptions :: CompileOptions where
  "default_CompileOptions =
     \<lparr>use_spmd_partitioning = False,
      allow_spmd_sharding_propagation_to_output = [False],
      num_partitions = 1, num_replicas = 1,
      parameter_is_tupled_arguments = False,
      device_assignment = None\<rparr>"

record Ifrt =
  ToDType :: "nat \<Rightarrow> nat StatusOr"
  ConcreteSharding_Create ::
    "PjRtDevice list \<Rightarrow> int list \<Rightarrow> int list list \<Rightarrow> string + ConcreteSharding"
  MakeArrayFromHostBuffer :: "TensorSource \<Rightarrow> nat \<Rightarrow> PjRtDevice \<Rightarrow> Array StatusOr"
  AssembleArrayFromSingleDeviceArrays ::
    "int list \<Rightarrow> ConcreteSharding \<Rightarrow> ArrayRef list \<Rightarrow> Array StatusOr"
  DisassembleIntoSingleDeviceArrays :: "Array \<Rightarrow> Array list StatusOr"
  FullyReplicatedShard :: "Array \<Rightarrow> Array StatusOr"
  CopyToHostBuffer :: "Array \<Rightarrow> int list \<Rightarrow> int list StatusOr"
  ByteStrides :: "Shape \<Rightarrow> int list StatusOr"
  DeviceShapeToHostShape :: "Shape \<Rightarrow> Shape"
  ByteSizeOf :: "Shape \<Rightarrow> 64 word"
  shape_of :: "ArrayRef \<Rightarrow> Shape"
  BuildReplicateComputation :: "Shape \<Rightarrow> OpSharding \<Rightarrow> XlaComputation StatusOr"
  GetProgramShape :: "XlaComputation \<Rightarrow> Shape StatusOr"
  ConvertHloToStableHlo :: "XlaComputation \<Rightarrow> string"
  CompilerCompile :: "string \<Rightarrow> CompileOptions \<Rightarrow> Executable StatusOr"
  Execute :: "Executable \<Rightarrow> ArrayRef list \<Rightarrow> ExecuteOptions \<Rightarrow> ArrayRef list StatusOr"
  GetCompilationDevices :: "string \<Rightarrow> string list \<Rightarrow> string list"
  unordered_walk :: "(int \<times> int) list \<Rightarrow> (int \<times> int) list"
  default_explode_tuple :: bool

definition library_call :: "string + 'a \<Rightarrow> failure + 'a" where
  "library_call r = (case r of Inl msg \<Rightarrow> Inl (LibraryAbort msg) | Inr v \<Rightarrow> Inr v)"

section \<open>Device registry\<close>

definition ascii_toupper :: "char \<Rightarrow> char" where
  "ascii_toupper ch =
     (let n = (of_char ch :: nat) in if 97 \<le> n \<and> n \<le> 122 then char_of (n - 32) else ch)"

definition AsciiStrToUpper :: "string \<Rightarrow> string" where
  "AsciiStrToUpper s = map ascii_toupper s"

fun decimal :: "nat \<Rightarrow> string" where
  "decimal n =
     (if n < 10 then [char_of (48 + n)]
      else decimal (n div 10) @ [char_of (48 + n mod 10)])"

definition format_d :: "int \<Rightarrow> string" where
  "format_d i = (if i < 0 then CHR ''-'' # decimal (nat (- i)) else decimal (nat i))"

text \<open>The operations of the two hash maps that the source uses.\<close>

fun map_assign :: "('k \<times> 'v) list \<Rightarrow> 'k \<Rightarrow> 'v \<Rightarrow> ('k \<times> 'v) list" where
  "map_assign [] k v = [(k, v)]"
| "map_assign ((k', v') # m) k v =
     (if k' = k then (k, v) # m else (k', v') # map_assign m k v)"

definition map_emplace :: "('k \<times> 'v) list \<Rightarrow> 'k \<Rightarrow> 'v \<Rightarrow> ('k \<times> 'v) list" where
  "map_emplace m k v = (case map_of m k of None \<Rightarrow> m @ [(k, v)] | Some old \<Rightarrow> m)"

definition map_at :: "('k \<times> 'v) list \<Rightarrow> 'k \<Rightarrow> failure + 'v" where
  "map_at m k = (case map_of m k of None \<Rightarrow> Inl OutOfRange | Some v \<Rightarrow> Inr v)"

definition PjRtDeviceToString :: "Client \<Rightarrow> PjRtDevice \<Rightarrow> failure + string" where
  "PjRtDeviceToString c dev =
     (let platform = AsciiStrToUpper (client_platform_name dev) in
      case map_at (global_ordinals_map c) (device_id dev) of
        Inl e \<Rightarrow> Inl e
      | Inr ordinal \<Rightarrow> Inr (platform @ '':'' @ format_d ordinal))"

fun PjRtDevicesToString :: "Client \<Rightarrow> PjRtDevice list \<Rightarrow> failure + string list" where
  "PjRtDevicesToString c [] = Inr []"
| "PjRtDevicesToString c (dev # rest) =
     (case PjRtDeviceToString c dev of
        Inl e \<Rightarrow> Inl e
      | Inr s \<Rightarrow>
          (case PjRtDevicesToString c rest of
             Inl e \<Rightarrow> Inl e
           | Inr strs \<Rightarrow> Inr (s # strs)))"

definition the_client :: "Client \<Rightarrow> failure + PjRtClient" where
  "the_client c = (case client_ptr c of None \<Rightarrow> Inl NullDereference | Some p \<Rightarrow> Inr p)"

definition GetLocalDevices :: "Client \<Rightarrow> failure + string list" where
  "GetLocalDevices c =
     (case the_client c of
        Inl e \<Rightarrow> Inl e
      | Inr p \<Rightarrow> PjRtDevicesToString c (addressable_devices p))"

definition GetAllDevices :: "Client \<Rightarrow> failure + string list" where
  "GetAllDevices c =
     (case the_client c of
        Inl e \<Rightarrow> Inl e
      | Inr p \<Rightarrow> PjRtDevicesToString c (devices p))"

definition GetDefaultDevice :: "Client \<Rightarrow> failure + string" where
  "GetDefaultDevice c =
     (case the_client c of
        Inl e \<Rightarrow> Inl e
      | Inr p \<Rightarrow>
          (case addressable_devices p of
             [] \<Rightarrow> Inl OutOfBounds
           | dev # rest \<Rightarrow> PjRtDeviceToString c dev))"

definition GetNumDevices :: "Client \<Rightarrow> failure + nat" where
  "GetNumDevices c =
     (case the_client c of
        Inl e \<Rightarrow> Inl e
      | Inr p \<Rightarrow> Inr (length (addressable_devices p)))"

definition StringToPjRtDevice :: "Client \<Rightarrow> string \<Rightarrow> failure + PjRtDevice" where
  "StringToPjRtDevice c dev =
     (case map_of (string_to_device_map c) dev of
        None \<Rightarrow> Inl (FatalError (''Unknown device '' @ dev))
      | Some pjrt_device \<Rightarrow> Inr pjrt_device)"

text \<open>
  The constructor. \<^verbatim>\<open>partial_sort_copy\<close> into a vector as long as the device list sorts
  all of it by id; each device then gets the size of the ordinal map before its own entry
  is made (the right operand of the assignment is evaluated first). Devices of equal id,
  which a driver does not report, would come out in an order the standard library does
  not fix; the sort here keeps the order of the list for them.
\<close>

fun register_devices :: "PjRtDevice list \<Rightarrow> Client \<Rightarrow> failure + Client" where
  "register_devices [] c = Inr c"
| "register_devices (dev # rest) c =
     (let c1 = c\<lparr>global_ordinals_map :=
                 map_assign (global_ordinals_map c) (device_id dev)
                   (int (length (global_ordinals_map c)))\<rparr>
      in case PjRtDeviceToString c1 dev of
           Inl e \<Rightarrow> Inl e
         | Inr device_str \<Rightarrow>
             register_devices rest
               (c1\<lparr>string_to_device_map :=
                    map_emplace (string_to_device_map c1) device_str dev\<rparr>))"

definition empty_Metrics :: Metrics where
  "empty_Metrics =
     \<lparr>StableHloCompileCounter = 0, CreateCompileHandlesCounter = 0,
      CreateDataHandlesCounter = 0, ReplicateShardedDataCounter = 0,
      OutboundDataMetric = [], InboundDataMetric = []\<rparr>"

definition IfrtComputationClient :: "PjRtClient \<Rightarrow> failure + Client" where
  "IfrtComputationClient p =
     (let c0 = \<lparr>client_ptr = Some p, coordinator_ptr = None, global_ordinals_map = [],
                string_to_device_map = [], operation_manager_devs = [],
                replication_devices_ptr = None, metrics = empty_Metrics\<rparr>;
          ordered_devices = sort_key device_id (devices p)
      in case register_devices ordered_devices c0 of
           Inl e \<Rightarrow> Inl e
         | Inr c1 \<Rightarrow>
             (case GetLocalDevices c1 of
                Inl e \<Rightarrow> Inl e
              | Inr tracked_devices \<Rightarrow>
                  Inr (c1\<lparr>operation_manager_devs := tracked_devices @ [spmd_device_str]\<rparr>)))"

section \<open>Transfer to the device\<close>

text \<open>
  Every \<^verbatim>\<open>DataPtr\<close> handed to the client is taken to point to an \<^verbatim>\<open>IfrtData\<close>: the client
  makes no other kind, and the casts on handles are then the identity. The metrics are
  process-wide in the source; here they travel with the client, the one state that the
  operations pass on. The running byte count \<^verbatim>\<open>total_size\<close> is an \<^verbatim>\<open>int64_t\<close>: a 64-bit word
  whose sum wraps, read as a signed number when the sample is recorded.
\<close>

definition bump_metrics :: "(Metrics \<Rightarrow> Metrics) \<Rightarrow> Client \<Rightarrow> Client" where
  "bump_metrics f c = c\<lparr>metrics := f (metrics c)\<rparr>"

fun TransferToServer_loop ::
  "Ifrt \<Rightarrow> Client \<Rightarrow> TensorSource list \<Rightarrow> IfrtData list \<Rightarrow> 64 word \<Rightarrow>
   failure + (IfrtData list \<times> 64 word)" where
  "TransferToServer_loop env c [] datas total_size = Inr (datas, total_size)"
| "TransferToServer_loop env c (tensor # rest) datas total_size =
     (case StringToPjRtDevice c (tensor_device tensor) of
        Inl e \<Rightarrow> Inl e
      | Inr pjrt_device \<Rightarrow>
          (let total_size' = total_size + ByteSizeOf env (tensor_shape tensor) in
           case value_or_die (ToDType env (element_type (tensor_shape tensor))) of
             Inl e \<Rightarrow> Inl e
           | Inr dt \<Rightarrow>
               (case value_or_die (MakeArrayFromHostBuffer env tensor dt pjrt_device) of
                  Inl e \<Rightarrow> Inl e
                | Inr buf \<Rightarrow>
                    TransferToServer_loop env c rest
                      (datas @ [IfrtData_shaped (tensor_device tensor) (tensor_shape tensor)
                                  (Some buf) None])
                      total_size')))"

definition TransferToServer ::
  "Ifrt \<Rightarrow> Client \<Rightarrow> TensorSource list \<Rightarrow> failure + (IfrtData list \<times> Client)" where
  "TransferToServer env c tensors =
     (case TransferToServer_loop env c tensors [] 0 of
        Inl e \<Rightarrow> Inl e
      | Inr (datas, total_size) \<Rightarrow>
          Inr (datas,
               bump_metrics
                 (\<lambda>m. m\<lparr>OutboundDataMetric := OutboundDataMetric m @ [sint total_size],
                        CreateDataHandlesCounter :=
                          CreateDataHandlesCounter m + int (length datas)\<rparr>) c))"

text \<open>
  The loop shared by \<^verbatim>\<open>WrapDataShards\<close> and \<^verbatim>\<open>TransferShardsToServer\<close>: the buffer of each
  shard and, through the buffer, its shape.
\<close>

fun collect_shards ::
  "IfrtData list \<Rightarrow> ArrayRef list \<Rightarrow> int list list \<Rightarrow>
   failure + (ArrayRef list \<times> int list list)" where
  "collect_shards [] arrays shapes = Inr (arrays, shapes)"
| "collect_shards (shard # rest) arrays shapes =
     (case buffer shard of
        None \<Rightarrow> Inl NullDereference
      | Some b \<Rightarrow> collect_shards rest (arrays @ [buffer shard]) (shapes @ [array_dims b]))"

definition TransferShardsToServer ::
  "Ifrt \<Rightarrow> Client \<Rightarrow> TensorSource list \<Rightarrow> string \<Rightarrow> Shape \<Rightarrow> OpSharding \<Rightarrow>
   failure + (IfrtData \<times> Client)" where
  "TransferShardsToServer env c tensor_shards dev shp sharding =
     (case TransferToServer env c tensor_shards of
        Inl e \<Rightarrow> Inl e
      | Inr (data_shards, c1) \<Rightarrow>
          (case collect_shards data_shards [] [] of
             Inl e \<Rightarrow> Inl e
           | Inr (arrays, shapes) \<Rightarrow>
               (let ifrt_shape = dimensions shp in
                case the_client c1 of
                  Inl e \<Rightarrow> Inl e
                | Inr p \<Rightarrow>
                    (case library_call
                            (ConcreteSharding_Create env (addressable_devices p) ifrt_shape
                               shapes) of
                       Inl e \<Rightarrow> Inl e
                     | Inr ifrt_sharding \<Rightarrow>
                         (case value_or_die
                                 (AssembleArrayFromSingleDeviceArrays env ifrt_shape
                                    ifrt_sharding arrays) of
                            Inl e \<Rightarrow> Inl e
                          | Inr sharded_array \<Rightarrow>
                              Inr (IfrtData_shaped dev shp (Some sharded_array)
                                     (Some sharding),
                                   c1))))))"

definition WrapDataShards ::
  "Ifrt \<Rightarrow> Client \<Rightarrow> IfrtData list \<Rightarrow> string \<Rightarrow> Shape \<Rightarrow> OpSharding \<Rightarrow>
   failure + IfrtData" where
  "WrapDataShards env c shards dev shp sharding =
     (if length shards = 0
      then Inr (IfrtData_shaped dev shp None (Some sharding))
      else
        (case collect_shards shards [] [] of
           Inl e \<Rightarrow> Inl e
         | Inr (arrays, shapes) \<Rightarrow>
             (let ifrt_shape = dimensions shp in
              case the_client c of
                Inl e \<Rightarrow> Inl e
              | Inr p \<Rightarrow>
                  (if length shapes \<noteq> length (addressable_devices p)
                   then Inl (FatalError
                          ''Check failed: shard_shapes.size() == devices_list.size()'')
                   else
                     (case library_call
                             (ConcreteSharding_Create env (addressable_devices p) ifrt_shape
                                shapes) of
                        Inl e \<Rightarrow> Inl e
                      | Inr ifrt_sharding \<Rightarrow>
                          (case value_or_die
                                  (AssembleArrayFromSingleDeviceArrays env ifrt_shape
                                     ifrt_sharding arrays) of
                             Inl e \<Rightarrow> Inl e
                           | Inr sharded_array \<Rightarrow>
                               Inr (IfrtData_shaped dev shp (Some sharded_array)
                                      (Some sharding))))))))"

fun wrap_single_device_arrays ::
  "Ifrt \<Rightarrow> Client \<Rightarrow> Array list \<Rightarrow> failure + IfrtData list" where
  "wrap_single_device_arrays env c [] = Inr []"
| "wrap_single_device_arrays env c (a # rest) =
     (case sharding_devices a of
        [] \<Rightarrow> Inl OutOfBounds
      | d # ds \<Rightarrow>
          (case PjRtDeviceToString c d of
             Inl e \<Rightarrow> Inl e
           | Inr s \<Rightarrow>
               (case wrap_single_device_arrays env c rest of
                  Inl e \<Rightarrow> Inl e
                | Inr shards \<Rightarrow>
                    Inr (IfrtData_of_buffer (shape_of env) s (Some a) None # shards))))"

definition GetDataShards :: "Ifrt \<Rightarrow> Client \<Rightarrow> IfrtData \<Rightarrow> failure + IfrtData list" where
  "GetDataShards env c data =
     (if HasSharding data
      then (case buffer data of
              None \<Rightarrow> Inl NullDereference
            | Some b \<Rightarrow>
                (case value_or_die (DisassembleIntoSingleDeviceArrays env b) of
                   Inl e \<Rightarrow> Inl e
                 | Inr arrays \<Rightarrow> wrap_single_device_arrays env c arrays))
      else Inr [data])"

definition CopyToDevice :: "Client \<Rightarrow> IfrtData \<Rightarrow> string \<Rightarrow> failure + IfrtData" where
  "CopyToDevice c data dst = Inl (FatalError (''CopyToDevice'' @ '' not implemented''))"

section \<open>Compilation\<close>

text \<open>
  Modelled from the spec: \<^verbatim>\<open>CompileInstance\<close> is declared in \<^verbatim>\<open>computation_client.h\<close>, which
  is not among the sources. The spec's compile instance is an intermediate representation,
  a target device list and the sharding flags; the source builds one positionally in
  \<^verbatim>\<open>ReplicateShardedData\<close> and reads the fields below in \<^verbatim>\<open>Compile\<close>.
\<close>

record CompileInstance =
  computation :: XlaComputation
  compilation_device :: string
  instance_devices :: "string list"
  output_shape :: "Shape option"
  instance_parameter_is_tupled_arguments :: bool
  is_sharded :: bool
  instance_allow_spmd_sharding_propagation_to_output :: bool

record IfrtComputation =
  computation_proto :: XlaComputation
  computation_devices :: "string list"
  executable :: Executable

datatype Computation = IfrtComputationObject IfrtComputation | ForeignComputation

text \<open>
  \<^verbatim>\<open>xla::DeviceAssignment(r, c)\<close> is an \<open>r\<close> by \<open>c\<close> array of \<open>-1\<close>. Writing an entry outside
  it is undefined in C++ and a failure here.
\<close>

definition DeviceAssignment :: "int \<Rightarrow> int \<Rightarrow> int list list" where
  "DeviceAssignment replica_count computation_count =
     replicate (nat replica_count) (replicate (nat computation_count) (- 1))"

definition Array2D_set :: "int list list \<Rightarrow> int \<Rightarrow> int \<Rightarrow> int \<Rightarrow> failure + int list list" where
  "Array2D_set a r col v =
     (if 0 \<le> r \<and> nat r < length a \<and> 0 \<le> col \<and> nat col < length (a ! nat r)
      then Inr (a[nat r := (a ! nat r)[nat col := v]])
      else Inl OutOfBounds)"

text \<open>
  The two loops over \<^verbatim>\<open>global_ordinals_\<close>. A hash map is walked in an order of its own:
  the list given here is the entries in the order of the walk.
\<close>

fun assign_partitions :: "(int \<times> int) list \<Rightarrow> int list list \<Rightarrow> failure + int list list" where
  "assign_partitions [] da = Inr da"
| "assign_partitions ((dev_id, global_ordinal) # rest) da =
     (case Array2D_set da 0 global_ordinal dev_id of
        Inl e \<Rightarrow> Inl e
      | Inr da' \<Rightarrow> assign_partitions rest da')"

fun assign_replicas :: "(int \<times> int) list \<Rightarrow> int list list \<Rightarrow> failure + int list list" where
  "assign_replicas [] da = Inr da"
| "assign_replicas ((dev_id, global_ordinal) # rest) da =
     (case Array2D_set da global_ordinal 0 dev_id of
        Inl e \<Rightarrow> Inl e
      | Inr da' \<Rightarrow> assign_replicas rest da')"

text \<open>The options that one turn of the loop of \<^verbatim>\<open>Compile\<close> builds for its instance.\<close>

definition Compile_options ::
  "Client \<Rightarrow> (int \<times> int) list \<Rightarrow> CompileInstance \<Rightarrow> failure + CompileOptions" where
  "Compile_options c walk inst =
     (case the_client c of
        Inl e \<Rightarrow> Inl e
      | Inr p \<Rightarrow>
          (let device_count = int (length (devices p)) in
           if is_sharded inst
           then (case assign_partitions walk (DeviceAssignment 1 device_count) of
                   Inl e \<Rightarrow> Inl e
                 | Inr da \<Rightarrow>
                     Inr (default_CompileOptions
                            \<lparr>use_spmd_partitioning := True,
                             allow_spmd_sharding_propagation_to_output :=
                               [instance_allow_spmd_sharding_propagation_to_output inst],
                             num_partitions := device_count,
                             num_replicas := 1,
                             parameter_is_tupled_arguments :=
                               instance_parameter_is_tupled_arguments inst,
                             device_assignment := Some da\<rparr>))
           else (case assign_replicas walk (DeviceAssignment device_count 1) of
                   Inl e \<Rightarrow> Inl e
                 | Inr da \<Rightarrow>
                     Inr (default_CompileOptions
                            \<lparr>num_partitions := 1,
                             num_replicas := device_count,
                             parameter_is_tupled_arguments :=
                               instance_parameter_is_tupled_arguments inst,
                             device_assignment := Some da\<rparr>))))"

definition Compile_instance ::
  "Ifrt \<Rightarrow> Client \<Rightarrow> CompileInstance \<Rightarrow> failure + (IfrtComputation \<times> Client)" where
  "Compile_instance env c inst =
     (case Compile_options c (unordered_walk env (global_ordinals_map c)) inst of
        Inl e \<Rightarrow> Inl e
      | Inr compile_options \<Rightarrow>
          (let mlir_module = ConvertHloToStableHlo env (computation inst) in
           case ConsumeValue (CompilerCompile env mlir_module compile_options) of
             Inl e \<Rightarrow> Inl e
           | Inr exe \<Rightarrow>
               (let c1 = bump_metrics
                           (\<lambda>m. m\<lparr>StableHloCompileCounter :=
                                    StableHloCompileCounter m + 1\<rparr>) c
                in case ConsumeValue (hlo_modules exe) of
                     Inl e \<Rightarrow> Inl e
                   | Inr mods \<Rightarrow>
                       (case mods of
                          [] \<Rightarrow> Inl OutOfBounds
                        | m0 # ms \<Rightarrow>
                            Inr (\<lparr>computation_proto = m0,
                                  computation_devices = instance_devices inst,
                                  executable = exe\<rparr>,
                                 bump_metrics
                                   (\<lambda>m. m\<lparr>CreateCompileHandlesCounter :=
                                            CreateCompileHandlesCounter m + 1\<rparr>) c1)))))"

fun Compile_loop ::
  "Ifrt \<Rightarrow> Client \<Rightarrow> CompileInstance list \<Rightarrow> IfrtComputation list \<Rightarrow>
   failure + (IfrtComputation list \<times> Client)" where
  "Compile_loop env c [] computations = Inr (computations, c)"
| "Compile_loop env c (inst # rest) computations =
     (case Compile_instance env c inst of
        Inl e \<Rightarrow> Inl e
      | Inr (pjrt_computation, c') \<Rightarrow>
          Compile_loop env c' rest (computations @ [pjrt_computation]))"

definition Compile ::
  "Ifrt \<Rightarrow> Client \<Rightarrow> CompileInstance list \<Rightarrow> failure + (IfrtComputation list \<times> Client)" where
  "Compile env c instances = Compile_loop env c instances []"

section \<open>Execution\<close>

record ExecuteComputationOptions =
  explode_tuple_single :: bool

record ExecuteReplicatedOptions =
  explode_tuple :: bool

text \<open>
  A default-constructed \<^verbatim>\<open>ExecuteReplicatedOptions\<close>; the default of its flag is set in a
  header that is not among the sources and is a parameter.
\<close>

definition default_ExecuteReplicatedOptions :: "Ifrt \<Rightarrow> ExecuteReplicatedOptions" where
  "default_ExecuteReplicatedOptions env = \<lparr>explode_tuple = default_explode_tuple env\<rparr>"

definition ExecuteComputation ::
  "Ifrt \<Rightarrow> Client \<Rightarrow> Computation \<Rightarrow> IfrtData list \<Rightarrow> string \<Rightarrow> ExecuteComputationOptions \<Rightarrow>
   failure + IfrtData list" where
  "ExecuteComputation env c cmp arguments dev options =
     Inl (FatalError (''ExecuteComputation'' @ '' not implemented''))"

definition ExecuteReplicated ::
  "Ifrt \<Rightarrow> Client \<Rightarrow> Computation \<Rightarrow> IfrtData list \<Rightarrow> string list \<Rightarrow> ExecuteReplicatedOptions \<Rightarrow>
   failure + IfrtData list" where
  "ExecuteReplicated env c cmp arguments devs options =
     (case cmp of
        ForeignComputation \<Rightarrow> Inl BadCast
      | IfrtComputationObject ifrt_computation \<Rightarrow>
          (let argument_handles = map buffer arguments;
               execute_options =
                 \<lparr>untuple_result = explode_tuple options,
                  strict_shape_checking = True,
                  multi_slice_config = None\<rparr>
           in case value_or_die
                     (Execute env (executable ifrt_computation) argument_handles
                        execute_options) of
                Inl e \<Rightarrow> Inl e
              | Inr results \<Rightarrow>
                  (case output_shardings (executable ifrt_computation) of
                     None \<Rightarrow>
                       Inl (FatalError
                         (''Check failed: '' @
                          ''ifrt_computation.executable->GetOutputShardings().has_value()''))
                   | Some shardings \<Rightarrow>
                       (if length shardings \<noteq> length results
                        then Inl (FatalError
                               ''Check failed: output_shardings.size() == results.size()'')
                        else Inr (map (\<lambda>i. IfrtData_of_buffer (shape_of env) ''SPMD:0''
                                              (results ! i) (Some (shardings ! i)))
                                    [0..<length results])))))"

section \<open>Transfer from the device\<close>

definition ReplicateShardedData ::
  "Ifrt \<Rightarrow> Client \<Rightarrow> IfrtData \<Rightarrow> failure + (ArrayRef \<times> Client)" where
  "ReplicateShardedData env c handle =
     (case buffer handle of
        None \<Rightarrow> Inl NullDereference
      | Some b \<Rightarrow>
          (if length (sharding_devices b) = 1
           then Inr (buffer handle, c)
           else
             (let c1 = bump_metrics
                         (\<lambda>m. m\<lparr>ReplicateShardedDataCounter :=
                                  ReplicateShardedDataCounter m + 1\<rparr>) c;
                  shp = shape handle
              in case GetSharding handle of
                   Inl e \<Rightarrow> Inl e
                 | Inr sharding \<Rightarrow>
              (case ConsumeValue (BuildReplicateComputation env shp sharding) of
                   Inl e \<Rightarrow> Inl e
                 | Inr xla_computation \<Rightarrow>
              (case ConsumeValue (GetProgramShape env xla_computation) of
                   Inl e \<Rightarrow> Inl e
                 | Inr program_shape \<Rightarrow>
              (case GetDefaultDevice c1 of
                   Inl e \<Rightarrow> Inl e
                 | Inr dev \<Rightarrow>
              (let instances =
                     [\<lparr>computation = xla_computation, compilation_device = dev,
                       instance_devices = GetCompilationDevices env dev [],
                       output_shape = Some shp,
                       instance_parameter_is_tupled_arguments = False,
                       is_sharded = True,
                       instance_allow_spmd_sharding_propagation_to_output = False\<rparr>]
               in case Compile env c1 instances of
                    Inl e \<Rightarrow> Inl e
                  | Inr (computations, c2) \<Rightarrow>
              (case GetLocalDevices c2 of
                    Inl e \<Rightarrow> Inl e
                  | Inr local_devices \<Rightarrow>
              (if length (sharding_devices b) \<noteq> length local_devices
               then Inl (FatalError
                      (''Check failed: handle->buffer->sharding().devices().size() == '' @
                       ''GetLocalDevices().size()''))
               else
              (case computations of
                 [] \<Rightarrow> Inl OutOfBounds
               | front # others \<Rightarrow>
              (case ExecuteReplicated env c2 (IfrtComputationObject front) [handle]
                      local_devices (default_ExecuteReplicatedOptions env) of
                 Inl e \<Rightarrow> Inl e
               | Inr sharded_results \<Rightarrow>
              (case sharded_results of
                 [] \<Rightarrow> Inl OutOfBounds
               | r # rs \<Rightarrow>
              (case buffer r of
                 None \<Rightarrow> Inl NullDereference
               | Some rb \<Rightarrow>
              (case value_or_die (FullyReplicatedShard env rb) of
                 Inl e \<Rightarrow> Inl e
               | Inr replicated_output \<Rightarrow>
                   Inr (Some replicated_output, c2)))))))))))))))"

fun TransferFromServer_loop ::
  "Ifrt \<Rightarrow> Client \<Rightarrow> IfrtData list \<Rightarrow> Literal list \<Rightarrow> 64 word \<Rightarrow>
   failure + (Literal list \<times> 64 word \<times> Client)" where
  "TransferFromServer_loop env c [] literals total_size = Inr (literals, total_size, c)"
| "TransferFromServer_loop env c (handle # rest) literals total_size =
     (case ReplicateShardedData env c handle of
        Inl e \<Rightarrow> Inl e
      | Inr (replicated_array, c1) \<Rightarrow>
          (let host_shape = DeviceShapeToHostShape env (shape handle) in
           case XLA_CHECK_OK (ByteStrides env host_shape) of
             Inl e \<Rightarrow> Inl e
           | Inr byte_strides \<Rightarrow>
               (case replicated_array of
                  None \<Rightarrow> Inl NullDereference
                | Some a \<Rightarrow>
                    (case XLA_CHECK_OK (CopyToHostBuffer env a byte_strides) of
                       Inl e \<Rightarrow> Inl e
                     | Inr bytes \<Rightarrow>
                         TransferFromServer_loop env c1 rest
                           (literals @ [\<lparr>literal_shape = host_shape, literal_data = bytes\<rparr>])
                           (total_size + ByteSizeOf env host_shape)))))"

definition TransferFromServer ::
  "Ifrt \<Rightarrow> Client \<Rightarrow> IfrtData list \<Rightarrow> failure + (Literal list \<times> Client)" where
  "TransferFromServer env c handles =
     (case TransferFromServer_loop env c handles [] 0 of
        Inl e \<Rightarrow> Inl e
      | Inr (literals, total_size, c1) \<Rightarrow>
          Inr (literals,
               bump_metrics
                 (\<lambda>m. m\<lparr>InboundDataMetric := InboundDataMetric m @ [sint total_size]\<rparr>) c1))"

section \<open>Concrete inputs\<close>

text \<open>
  A client over two devices whose driver ids, 7 and 3, are neither dense nor in order, and
  a library whose copy to the host fails for one buffer and whose compiler is never
  reached; a second library differs from it in a compiler that answers with an executable
  numbered by the partition count it is given.
\<close>

definition example_tpu7 :: PjRtDevice where
  "example_tpu7 = \<lparr>device_id = 7, process_index = 0, client_platform_name = ''tpu''\<rparr>"

definition example_tpu3 :: PjRtDevice where
  "example_tpu3 = \<lparr>device_id = 3, process_index = 0, client_platform_name = ''tpu''\<rparr>"

definition example_pjrt :: PjRtClient where
  "example_pjrt =
     \<lparr>devices = [example_tpu7, example_tpu3],
      addressable_devices = [example_tpu7, example_tpu3],
      client_process_index = 0\<rparr>"

definition example_client :: Client where
  "example_client =
     \<lparr>client_ptr = Some example_pjrt, coordinator_ptr = None,
      global_ordinals_map = [(3, 0), (7, 1)],
      string_to_device_map = [(''TPU:0'', example_tpu3), (''TPU:1'', example_tpu7)],
      operation_manager_devs = [''TPU:1'', ''TPU:0'', ''SPMD:0''],
      replication_devices_ptr = None, metrics = empty_Metrics\<rparr>"

definition example_coordinator :: XlaCoordinator where
  "example_coordinator =
     \<lparr>global_rank = 0, world_size = 2, master_addr = ''localhost'', port = ''8547''\<rparr>"

definition example_make_coordinator ::
  "int \<Rightarrow> int \<Rightarrow> string \<Rightarrow> string \<Rightarrow> failure + XlaCoordinator" where
  "example_make_coordinator r w a p =
     (if w \<le> r then Inl (FatalError ''Failed to initialize distributed runtime client'')
      else Inr \<lparr>global_rank = r, world_size = w, master_addr = a, port = p\<rparr>)"

definition example_shape :: Shape where
  "example_shape = \<lparr>element_type = 11, dimensions = [4]\<rparr>"

definition example_sharding :: OpSharding where
  "example_sharding =
     \<lparr>sharding_type = OTHER, tile_assignment_dimensions = [2],
      tile_assignment_devices = [0, 1]\<rparr>"

definition example_replicated :: OpSharding where
  "example_replicated =
     \<lparr>sharding_type = REPLICATED, tile_assignment_dimensions = [],
      tile_assignment_devices = []\<rparr>"

definition example_array :: "nat \<Rightarrow> PjRtDevice list \<Rightarrow> Array" where
  "example_array uid devs =
     \<lparr>array_uid = uid, sharding_devices = devs, dtype = 11, array_dims = [4]\<rparr>"

definition example_env :: Ifrt where
  "example_env =
     \<lparr>ToDType = (\<lambda>t. Inr t),
      ConcreteSharding_Create =
        (\<lambda>devs dims shapes.
           if length shapes = length devs
           then Inr \<lparr>devices_list = devs, sharding_shape = dims, shard_shapes = shapes\<rparr>
           else Inl ''shard shapes and devices differ in number''),
      MakeArrayFromHostBuffer =
        (\<lambda>t dt d. Inr \<lparr>array_uid = 10, sharding_devices = [d], dtype = dt,
                        array_dims = dimensions (tensor_shape t)\<rparr>),
      AssembleArrayFromSingleDeviceArrays =
        (\<lambda>dims sh arrays.
           if length arrays = length (devices_list sh)
           then Inr \<lparr>array_uid = 20, sharding_devices = devices_list sh,
                     dtype = 11, array_dims = dims\<rparr>
           else Inl ''arrays and devices differ in number''),
      DisassembleIntoSingleDeviceArrays = (\<lambda>a. Inl ''cannot disassemble''),
      FullyReplicatedShard = (\<lambda>a. Inl ''no replicated shard''),
      CopyToHostBuffer =
        (\<lambda>a strides. if array_uid a = 13 then Inl ''copy to host failed''
                      else Inr (replicate 4 0)),
      ByteStrides = (\<lambda>s. Inr [4]),
      DeviceShapeToHostShape = (\<lambda>s. s),
      ByteSizeOf = (\<lambda>s. 16),
      shape_of =
        (\<lambda>a. \<lparr>element_type = 11,
                 dimensions = (case a of None \<Rightarrow> [] | Some b \<Rightarrow> array_dims b)\<rparr>),
      BuildReplicateComputation = (\<lambda>s sh. Inl ''no builder''),
      GetProgramShape = (\<lambda>x. Inl ''no program shape''),
      ConvertHloToStableHlo = (\<lambda>x. x),
      CompilerCompile = (\<lambda>m opts. Inl ''no compiler''),
      Execute =
        (\<lambda>exe args opts. if executable_uid exe = 0 then Inl ''execution failed''
                           else Inr (args @ args)),
      GetCompilationDevices = (\<lambda>d ds. [d]),
      unordered_walk = rev,
      default_explode_tuple = True\<rparr>"

definition example_compiling_env :: Ifrt where
  "example_compiling_env =
     example_env
       \<lparr>CompilerCompile :=
          (\<lambda>m opts. Inr \<lparr>executable_uid = nat (num_partitions opts),
                          hlo_modules = Inr [m],
                          output_shardings = Some [example_replicated]\<rparr>)\<rparr>"

definition example_handle :: "nat \<Rightarrow> IfrtData" where
  "example_handle uid =
     \<lparr>device = ''TPU:0'', shape = example_shape,
      buffer = Some (example_array uid [example_tpu3]), sharding_opt = None\<rparr>"

definition example_sharded_handle :: IfrtData where
  "example_sharded_handle =
     \<lparr>device = ''SPMD:0'', shape = example_shape,
      buffer = Some (example_array 30 [example_tpu3, example_tpu7]),
      sharding_opt = Some example_sharding\<rparr>"

definition example_store :: store where
  "example_store =
     (\<lambda>a. if a = 0 then Some (IfrtObject (example_handle 1))
          else if a = 1 then Some (IfrtObject example_sharded_handle)
          else None)"

definition example_tensor :: TensorSource where
  "example_tensor =
     \<lparr>tensor_device = ''TPU:0'', tensor_shape = example_shape, tensor_data = [1, 2, 3, 4]\<rparr>"

definition example_executable :: "nat \<Rightarrow> OpSharding list option \<Rightarrow> IfrtComputation" where
  "example_executable uid shardings =
     \<lparr>computation_proto = ''p0'', computation_devices = [''TPU:0'', ''TPU:1''],
      executable = \<lparr>executable_uid = uid, hlo_modules = Inr [''p0''],
                    output_shardings = shardings\<rparr>\<rparr>"

definition example_instance :: CompileInstance where
  "example_instance =
     \<lparr>computation = ''p0'', compilation_device = ''TPU:0'',
      instance_devices = [''TPU:0'', ''TPU:1''], output_shape = Some example_shape,
      instance_parameter_is_tupled_arguments = False, is_sharded = True,
      instance_allow_spmd_sharding_propagation_to_output = False\<rparr>"

section \<open>Teardown order\<close>

lemma example_client_constructed: "IfrtComputationClient example_pjrt = Inr example_client"
  by code_simp

text \<open>
  C1 (as amended). When the client is destroyed, the handle to the device client is given
  up first and the coordinator is destroyed after it: the trace of the destructor is the
  release of the client, if one is held, followed by the destruction of the coordinator, if
  one exists; the coordinator is still there when the client handle is reset; both fields
  are null afterwards.
\<close>

theorem client_released_before_coordinator:
  "snd (destroy_IfrtComputationClient c) =
     (case client_ptr c of None \<Rightarrow> [] | Some p \<Rightarrow> [ClientReleased]) @
     (case coordinator_ptr c of None \<Rightarrow> [] | Some k \<Rightarrow> [CoordinatorDestroyed])
   \<and> strictly_before ClientReleased CoordinatorDestroyed
         (snd (destroy_IfrtComputationClient c))
   \<and> coordinator_ptr (fst (reset_client c)) = coordinator_ptr c
   \<and> client_ptr (fst (destroy_IfrtComputationClient c)) = None
   \<and> coordinator_ptr (fst (destroy_IfrtComputationClient c)) = None"
  by (simp add: destroy_IfrtComputationClient_def reset_client_def reset_coordinator_def
      split: option.splits)

theorem client_released_before_coordinator_witness:
  "snd (destroy_IfrtComputationClient
          (example_client\<lparr>coordinator_ptr := Some example_coordinator\<rparr>)) =
     [ClientReleased, CoordinatorDestroyed]
   \<and> strictly_before ClientReleased CoordinatorDestroyed
         (snd (destroy_IfrtComputationClient
                 (example_client\<lparr>coordinator_ptr := Some example_coordinator\<rparr>)))"
  using client_released_before_coordinator
          [of "example_client\<lparr>coordinator_ptr := Some example_coordinator\<rparr>"]
  by (simp add: example_client_def)

text \<open>
  The order that the spec gives does not hold on a client that holds both: the coordinator
  is not torn down before the client handle.
\<close>

theorem coordinator_first_counterexample:
  "\<not> strictly_before CoordinatorDestroyed ClientReleased
        (snd (destroy_IfrtComputationClient
                (example_client\<lparr>coordinator_ptr := Some example_coordinator\<rparr>)))"
  by (simp add: destroy_IfrtComputationClient_def reset_client_def reset_coordinator_def
      example_client_def)

section \<open>The coordinator is initialized once\<close>

lemma initializations_after_initialized:
  "coordinator_ptr c \<noteq> None \<Longrightarrow> initializations mk c calls = 0"
proof (induction calls)
  case Nil
  show ?case by simp
next
  case (Cons x xs)
  then show ?case by (cases x) (simp_all add: InitializeCoordinator_def)
qed

lemma initializations_le_1: "initializations mk c calls \<le> 1"
proof (induction calls arbitrary: c)
  case Nil
  show ?case by simp
next
  case (Cons x xs)
  show ?case
  proof (cases "coordinator_step mk c x")
    case (Pair c' ok)
    show ?thesis
    proof (cases ok)
      case True
      with Pair have "coordinator_ptr c' \<noteq> None"
        by (cases x) (auto simp: InitializeCoordinator_def split: if_splits sum.splits)
      then have "initializations mk c' xs = 0"
        by (rule initializations_after_initialized)
      with Pair True show ?thesis by simp
    next
      case False
      with Pair Cons.IH [of c'] show ?thesis by simp
    qed
  qed
qed

text \<open>The other operations that hand back a client leave its coordinator as it is.\<close>

lemma bump_metrics_coordinator [simp]:
  "coordinator_ptr (bump_metrics f c) = coordinator_ptr c"
  by (simp add: bump_metrics_def)

lemma TransferToServer_coordinator:
  "TransferToServer env c tensors = Inr (datas, c') \<Longrightarrow> coordinator_ptr c' = coordinator_ptr c"
  by (auto simp: TransferToServer_def split: sum.splits prod.splits)

lemma Compile_instance_coordinator:
  "Compile_instance env c inst = Inr (x, c') \<Longrightarrow> coordinator_ptr c' = coordinator_ptr c"
  by (auto simp: Compile_instance_def Let_def split: sum.splits list.splits)

lemma Compile_loop_coordinator:
  "Compile_loop env c insts acc = Inr (xs, c') \<Longrightarrow> coordinator_ptr c' = coordinator_ptr c"
proof (induction insts arbitrary: c acc)
  case Nil
  then show ?case by simp
next
  case (Cons inst insts)
  then show ?case
    by (auto split: sum.splits prod.splits dest!: Compile_instance_coordinator)
qed

lemma ReplicateShardedData_coordinator:
  "ReplicateShardedData env c handle = Inr (a, c') \<Longrightarrow> coordinator_ptr c' = coordinator_ptr c"
  unfolding ReplicateShardedData_def Compile_def Let_def
  by (auto split: option.splits sum.splits if_splits list.splits prod.splits
      dest!: Compile_instance_coordinator)

lemma TransferFromServer_loop_coordinator:
  "TransferFromServer_loop env c handles literals tot = Inr (ls, t, c') \<Longrightarrow>
   coordinator_ptr c' = coordinator_ptr c"
proof (induction handles arbitrary: c literals tot)
  case Nil
  then show ?case by simp
next
  case (Cons h hs)
  then show ?case
    by (auto simp: Let_def split: sum.splits prod.splits option.splits
        dest!: ReplicateShardedData_coordinator)
qed

lemma operations_keep_coordinator:
  "(TransferToServer env c tensors = Inr (datas, c1) \<longrightarrow>
      coordinator_ptr c1 = coordinator_ptr c)
   \<and> (TransferShardsToServer env c tensors dev shp sharding = Inr (d, c2) \<longrightarrow>
      coordinator_ptr c2 = coordinator_ptr c)
   \<and> (Compile env c insts = Inr (cs, c3) \<longrightarrow> coordinator_ptr c3 = coordinator_ptr c)
   \<and> (TransferFromServer env c handles = Inr (ls, c4) \<longrightarrow>
      coordinator_ptr c4 = coordinator_ptr c)"
proof (intro conjI impI)
  assume "TransferToServer env c tensors = Inr (datas, c1)"
  then show "coordinator_ptr c1 = coordinator_ptr c" by (rule TransferToServer_coordinator)
next
  assume "TransferShardsToServer env c tensors dev shp sharding = Inr (d, c2)"
  then show "coordinator_ptr c2 = coordinator_ptr c"
    by (auto simp: TransferShardsToServer_def Let_def split: sum.splits prod.splits
        dest!: TransferToServer_coordinator)
next
  assume "Compile env c insts = Inr (cs, c3)"
  then show "coordinator_ptr c3 = coordinator_ptr c"
    by (simp add: Compile_def Compile_loop_coordinator)
next
  assume "TransferFromServer env c handles = Inr (ls, c4)"
  then show "coordinator_ptr c4 = coordinator_ptr c"
    by (auto simp: TransferFromServer_def split: sum.splits prod.splits
        dest!: TransferFromServer_loop_coordinator)
qed

text \<open>
  C8. The coordinator goes from uninitialized to initialized at most once in a process:
  in any run of calls on the client at most one \<^verbatim>\<open>InitializeCoordinator\<close> succeeds, and
  the transfers and compilations in between leave the coordinator alone. A call of
  \<^verbatim>\<open>InitializeCoordinator\<close> on the client that a successful one left fails with the fatal
  check "Can only initialize the XlaCoordinator once.", whatever its arguments; and
  \<^verbatim>\<open>GetCoordinator\<close> on a client whose coordinator is not initialized fails with the fatal
  check "XlaCoordinator has not been initialized".
\<close>

theorem coordinator_initialized_once:
  "(InitializeCoordinator mk c r w a p = Inr c' \<longrightarrow>
      InitializeCoordinator mk c' r2 w2 a2 p2 =
        Inl (FatalError ''Can only initialize the XlaCoordinator once.''))
   \<and> (\<not> CoordinatorInitialized c \<longrightarrow>
        GetCoordinator c = Inl (FatalError ''XlaCoordinator has not been initialized''))
   \<and> initializations mk c calls \<le> 1
   \<and> (TransferToServer env c tensors = Inr (datas, c1) \<longrightarrow>
        coordinator_ptr c1 = coordinator_ptr c)
   \<and> (TransferShardsToServer env c tensors dev shp sharding = Inr (d, c2) \<longrightarrow>
        coordinator_ptr c2 = coordinator_ptr c)
   \<and> (Compile env c insts = Inr (cs, c3) \<longrightarrow> coordinator_ptr c3 = coordinator_ptr c)
   \<and> (TransferFromServer env c handles = Inr (ls, c4) \<longrightarrow>
        coordinator_ptr c4 = coordinator_ptr c)"
proof -
  have "InitializeCoordinator mk c r w a p = Inr c' \<longrightarrow>
      InitializeCoordinator mk c' r2 w2 a2 p2 =
        Inl (FatalError ''Can only initialize the XlaCoordinator once.'')"
    by (auto simp: InitializeCoordinator_def split: if_splits sum.splits)
  moreover have "\<not> CoordinatorInitialized c \<longrightarrow>
        GetCoordinator c = Inl (FatalError ''XlaCoordinator has not been initialized'')"
    by (simp add: GetCoordinator_def CoordinatorInitialized_def)
  moreover note initializations_le_1 [of mk c calls]
    operations_keep_coordinator [of env c tensors datas c1 dev shp sharding d c2 insts cs c3
      handles ls c4]
  ultimately show ?thesis by blast
qed

theorem coordinator_initialized_once_witness:
  "InitializeCoordinator example_make_coordinator example_client 0 2 ''localhost'' ''8547''
     = Inr (example_client\<lparr>coordinator_ptr := Some example_coordinator\<rparr>)
   \<and> InitializeCoordinator example_make_coordinator
        (example_client\<lparr>coordinator_ptr := Some example_coordinator\<rparr>) 1 2 ''otherhost'' ''1''
     = Inl (FatalError ''Can only initialize the XlaCoordinator once.'')
   \<and> \<not> CoordinatorInitialized example_client
   \<and> GetCoordinator example_client =
       Inl (FatalError ''XlaCoordinator has not been initialized'')
   \<and> initializations example_make_coordinator example_client
        [CallGet, CallInitialize 5 2 ''localhost'' ''8547'',
         CallInitialize 0 2 ''localhost'' ''8547'', CallInitialized,
         CallInitialize 1 2 ''localhost'' ''8547'', CallGet] = 1
   \<and> TransferToServer example_env example_client [example_tensor] =
       Inr ([\<lparr>device = ''TPU:0'', shape = example_shape,
              buffer = Some \<lparr>array_uid = 10, sharding_devices = [example_tpu3], dtype = 11,
                             array_dims = [4]\<rparr>,
              sharding_opt = None\<rparr>],
            example_client\<lparr>metrics := empty_Metrics
              \<lparr>CreateDataHandlesCounter := 1, OutboundDataMetric := [16]\<rparr>\<rparr>)"
proof -
  have first:
    "InitializeCoordinator example_make_coordinator example_client 0 2 ''localhost'' ''8547''
       = Inr (example_client\<lparr>coordinator_ptr := Some example_coordinator\<rparr>)"
    by (simp add: InitializeCoordinator_def example_make_coordinator_def example_client_def
        example_coordinator_def)
  have uninit: "\<not> CoordinatorInitialized example_client"
    by (simp add: CoordinatorInitialized_def example_client_def)
  have run: "initializations example_make_coordinator example_client
        [CallGet, CallInitialize 5 2 ''localhost'' ''8547'',
         CallInitialize 0 2 ''localhost'' ''8547'', CallInitialized,
         CallInitialize 1 2 ''localhost'' ''8547'', CallGet] = 1"
    by (simp add: InitializeCoordinator_def example_make_coordinator_def example_client_def)
  have transfer: "TransferToServer example_env example_client [example_tensor] =
       Inr ([\<lparr>device = ''TPU:0'', shape = example_shape,
              buffer = Some \<lparr>array_uid = 10, sharding_devices = [example_tpu3], dtype = 11,
                             array_dims = [4]\<rparr>,
              sharding_opt = None\<rparr>],
            example_client\<lparr>metrics := empty_Metrics
              \<lparr>CreateDataHandlesCounter := 1, OutboundDataMetric := [16]\<rparr>\<rparr>)"
    by (simp add: TransferToServer_def StringToPjRtDevice_def example_client_def
        example_tensor_def example_env_def example_shape_def value_or_die_def
        IfrtData_shaped_def bump_metrics_def empty_Metrics_def)
  note inst = coordinator_initialized_once
    [of example_make_coordinator example_client 0 2 "''localhost''" "''8547''"
        "example_client\<lparr>coordinator_ptr := Some example_coordinator\<rparr>"
        1 2 "''otherhost''" "''1''"]
  from inst first have second:
    "InitializeCoordinator example_make_coordinator
        (example_client\<lparr>coordinator_ptr := Some example_coordinator\<rparr>) 1 2 ''otherhost'' ''1''
     = Inl (FatalError ''Can only initialize the XlaCoordinator once.'')"
    by blast
  from inst uninit have get: "GetCoordinator example_client =
       Inl (FatalError ''XlaCoordinator has not been initialized'')"
    by blast
  from first second uninit get run transfer show ?thesis by blast
qed

section \<open>Interface points that are not implemented\<close>

text \<open>
  C9. Every call of \<^verbatim>\<open>ExecuteComputation\<close> and every call of \<^verbatim>\<open>CopyToDevice\<close>, whatever its
  arguments, the client and the library, ends in the fatal error "not implemented" under
  the function's name; neither returns a result.
\<close>

theorem unimplemented_interface_points_abort:
  "ExecuteComputation env c cmp arguments dev options =
     Inl (FatalError ''ExecuteComputation not implemented'')
   \<and> CopyToDevice c data dst = Inl (FatalError ''CopyToDevice not implemented'')"
  by (simp add: ExecuteComputation_def CopyToDevice_def)

theorem unimplemented_interface_points_abort_witness:
  "ExecuteComputation example_env example_client
     (IfrtComputationObject (example_executable 1 (Some [example_replicated])))
     [example_handle 1] ''TPU:0'' \<lparr>explode_tuple_single = True\<rparr> =
     Inl (FatalError ''ExecuteComputation not implemented'')
   \<and> CopyToDevice example_client (example_handle 1) ''TPU:1'' =
       Inl (FatalError ''CopyToDevice not implemented'')"
  using unimplemented_interface_points_abort
          [of example_env example_client
              "IfrtComputationObject (example_executable 1 (Some [example_replicated]))"
              "[example_handle 1]" "''TPU:0''" "\<lparr>explode_tuple_single = True\<rparr>"
              "example_handle 1" "''TPU:1''"]
  by simp

section \<open>Assign\<close>

text \<open>
  C10. Let \<open>this\<close> be the address of a handle and \<open>data\<close> the address of the source, both
  \<^verbatim>\<open>IfrtData\<close>. If the addresses differ, \<^verbatim>\<open>Assign\<close> changes the store at \<open>this\<close> only, and
  there only the buffer reference, which becomes the source's: the device string, the
  shape and the sharding descriptor stay, whatever the sharding of the source is. If the
  addresses are the same, the store is unchanged.
\<close>

theorem Assign_changes_only_buffer:
  assumes "h this = Some (IfrtObject self)" and "h data = Some (IfrtObject src)"
  shows "(data \<noteq> this \<longrightarrow>
            Assign h this data =
              Inr (h(this \<mapsto> IfrtObject \<lparr>device = device self, shape = shape self,
                                         buffer = buffer src,
                                         sharding_opt = sharding_opt self\<rparr>)))
         \<and> (data = this \<longrightarrow> Assign h this data = Inr h)"
  using assms by (cases self) (simp add: Assign_def)

theorem Assign_changes_only_buffer_witness:
  "example_store 0 = Some (IfrtObject (example_handle 1))
   \<and> example_store 1 = Some (IfrtObject example_sharded_handle)
   \<and> sharding_opt example_sharded_handle \<noteq> sharding_opt (example_handle 1)
   \<and> Assign example_store 0 1 =
       Inr (example_store(0 \<mapsto> IfrtObject
              \<lparr>device = ''TPU:0'', shape = example_shape,
               buffer = Some (example_array 30 [example_tpu3, example_tpu7]),
               sharding_opt = None\<rparr>))
   \<and> Assign example_store 0 0 = Inr example_store"
proof -
  have a: "example_store 0 = Some (IfrtObject (example_handle 1))"
    and b: "example_store 1 = Some (IfrtObject example_sharded_handle)"
    by (simp_all add: example_store_def)
  have c: "sharding_opt example_sharded_handle \<noteq> sharding_opt (example_handle 1)"
    by (simp add: example_sharded_handle_def example_handle_def)
  from Assign_changes_only_buffer
         [of example_store 0 "example_handle 1" 1 example_sharded_handle, OF a b]
  have d: "Assign example_store 0 1 =
       Inr (example_store(0 \<mapsto> IfrtObject
              \<lparr>device = ''TPU:0'', shape = example_shape,
               buffer = Some (example_array 30 [example_tpu3, example_tpu7]),
               sharding_opt = None\<rparr>))"
    by (simp add: example_handle_def example_sharded_handle_def)
  from Assign_changes_only_buffer
         [of example_store 0 "example_handle 1" 0 "example_handle 1", OF a a]
  have e: "Assign example_store 0 0 = Inr example_store"
    by simp
  from a b c d e show ?thesis by blast
qed

section \<open>The empty shard list\<close>

text \<open>
  C7. \<^verbatim>\<open>WrapDataShards\<close> on an empty list of shards does not fail: it returns a handle with
  the given device and shape, a null buffer reference, and the given sharding descriptor,
  so that \<^verbatim>\<open>HasSharding\<close> holds of it and \<^verbatim>\<open>GetSharding\<close> returns the descriptor.
\<close>

theorem WrapDataShards_empty:
  "WrapDataShards env c [] dev shp sharding =
     Inr \<lparr>device = dev, shape = shp, buffer = None, sharding_opt = Some sharding\<rparr>
   \<and> HasSharding \<lparr>device = dev, shape = shp, buffer = None, sharding_opt = Some sharding\<rparr>
   \<and> GetSharding \<lparr>device = dev, shape = shp, buffer = None, sharding_opt = Some sharding\<rparr>
       = Inr sharding"
  by (simp add: WrapDataShards_def IfrtData_shaped_def HasSharding_def GetSharding_def)

theorem WrapDataShards_empty_witness:
  "WrapDataShards example_env example_client [] ''SPMD:0'' example_shape example_sharding =
     Inr \<lparr>device = ''SPMD:0'', shape = example_shape, buffer = None,
          sharding_opt = Some example_sharding\<rparr>
   \<and> HasSharding \<lparr>device = ''SPMD:0'', shape = example_shape, buffer = None,
                   sharding_opt = Some example_sharding\<rparr>"
  using WrapDataShards_empty
          [of example_env example_client "''SPMD:0''" example_shape example_sharding]
  by simp

section \<open>Replication of a single-device array\<close>

text \<open>
  C4. If the physical array of a handle spans exactly one device, \<^verbatim>\<open>ReplicateShardedData\<close>
  returns that very array and the client as it was: no counter moves, the compile
  counters among them, and nothing is asked of the compiler or of an executable, since the
  result is the same for every library.
\<close>

theorem ReplicateShardedData_single_device:
  assumes "buffer handle = Some b" and "length (sharding_devices b) = 1"
  shows "ReplicateShardedData env c handle = Inr (Some b, c)"
  using assms by (simp add: ReplicateShardedData_def)

theorem ReplicateShardedData_single_device_witness:
  "buffer (example_handle 1) = Some (example_array 1 [example_tpu3])
   \<and> length (sharding_devices (example_array 1 [example_tpu3])) = 1
   \<and> ReplicateShardedData example_env example_client (example_handle 1) =
       Inr (Some (example_array 1 [example_tpu3]), example_client)
   \<and> StableHloCompileCounter (metrics example_client) = 0"
proof -
  have a: "buffer (example_handle 1) = Some (example_array 1 [example_tpu3])"
    by (simp add: example_handle_def)
  have b: "length (sharding_devices (example_array 1 [example_tpu3])) = 1"
    by (simp add: example_array_def)
  have c: "StableHloCompileCounter (metrics example_client) = 0"
    by (simp add: example_client_def empty_Metrics_def)
  from ReplicateShardedData_single_device [OF a b, of example_env example_client] a b c
  show ?thesis by blast
qed

section \<open>The device assignment of a sharded compilation\<close>

lemma map_assign_fresh: "k \<notin> fst ` set m \<Longrightarrow> map_assign m k v = m @ [(k, v)]"
  by (induction m) auto

text \<open>
  Registering devices with distinct ids, none of them in the ordinal map yet, appends
  each id with the next ordinal.
\<close>

lemma register_devices_ordinals:
  assumes "register_devices ds c = Inr c'"
      and "distinct (map device_id ds)"
      and "\<forall>d\<in>set ds. device_id d \<notin> fst ` set (global_ordinals_map c)"
  shows "global_ordinals_map c' =
           global_ordinals_map c @
           zip (map device_id ds)
             (map int [length (global_ordinals_map c) ..<
                       length (global_ordinals_map c) + length ds])
         \<and> client_ptr c' = client_ptr c"
  using assms
proof (induction ds arbitrary: c)
  case Nil
  then show ?case by simp
next
  case (Cons d ds)
  let ?n = "length (global_ordinals_map c)"
  let ?m1 = "global_ordinals_map c @ [(device_id d, int ?n)]"
  from Cons.prems(3) have fresh: "device_id d \<notin> fst ` set (global_ordinals_map c)"
    by simp
  then have assign: "map_assign (global_ordinals_map c) (device_id d) (int ?n) = ?m1"
    by (rule map_assign_fresh)
  from Cons.prems(1) assign obtain s where
    rest: "register_devices ds
             (c\<lparr>global_ordinals_map := ?m1,
                string_to_device_map := map_emplace (string_to_device_map c) s d\<rparr>) = Inr c'"
    by (auto simp: Let_def split: sum.splits)
  let ?c2 = "c\<lparr>global_ordinals_map := ?m1,
               string_to_device_map := map_emplace (string_to_device_map c) s d\<rparr>"
  have d2: "distinct (map device_id ds)"
    using Cons.prems(2) by simp
  have f2: "\<forall>x\<in>set ds. device_id x \<notin> fst ` set (global_ordinals_map ?c2)"
  proof
    fix x assume x: "x \<in> set ds"
    then have "device_id x \<in> device_id ` set ds" by (rule imageI)
    moreover have "device_id d \<notin> device_id ` set ds" using Cons.prems(2) by simp
    ultimately have "device_id x \<noteq> device_id d" by metis
    moreover have "device_id x \<notin> fst ` set (global_ordinals_map c)"
      using Cons.prems(3) x by simp
    ultimately show "device_id x \<notin> fst ` set (global_ordinals_map ?c2)" by auto
  qed
  from Cons.IH [OF rest d2 f2]
  have ih: "global_ordinals_map c' =
              ?m1 @ zip (map device_id ds) (map int [Suc ?n ..< Suc ?n + length ds])"
    and cp: "client_ptr c' = client_ptr c"
    by simp_all
  have "[?n ..< ?n + length (d # ds)] = ?n # [Suc ?n ..< Suc ?n + length ds]"
    by (subst upt_rec) simp
  with ih cp show ?case by simp
qed

lemma distinct_map_sort_key:
  "distinct (map f xs) \<Longrightarrow> distinct (map f (sort_key f xs))"
proof -
  assume "distinct (map f xs)"
  moreover have "mset (map f (sort_key f xs)) = mset (map f xs)"
    by simp
  ultimately show ?thesis
    by (metis mset_eq_imp_distinct_iff)
qed

text \<open>The ordinal of a device is its rank when the devices are sorted by id.\<close>

lemma constructed_ordinals:
  assumes "IfrtComputationClient p = Inr c0"
      and "distinct (map device_id (devices p))"
  shows "global_ordinals_map c0 =
           zip (map device_id (sort_key device_id (devices p)))
               (map int [0 ..< length (devices p)])
         \<and> client_ptr c0 = Some p"
proof -
  let ?c = "\<lparr>client_ptr = Some p, coordinator_ptr = None, global_ordinals_map = [],
             string_to_device_map = [], operation_manager_devs = [],
             replication_devices_ptr = None, metrics = empty_Metrics\<rparr>"
  from assms(1) obtain c1 tracked where
    reg: "register_devices (sort_key device_id (devices p)) ?c = Inr c1"
    and c0: "c0 = c1\<lparr>operation_manager_devs := tracked @ [spmd_device_str]\<rparr>"
    by (auto simp: IfrtComputationClient_def Let_def split: sum.splits)
  have "distinct (map device_id (sort_key device_id (devices p)))"
    using assms(2) by (rule distinct_map_sort_key)
  from register_devices_ordinals [OF reg this] c0 show ?thesis
    by simp
qed

text \<open>
  Writing the entries of a walk with distinct ordinals, all inside the row, puts each id
  at its ordinal and touches nothing else, whatever the order of the walk.
\<close>

lemma assign_partitions_row:
  assumes "distinct (map snd walk)"
      and "\<forall>e\<in>set walk. 0 \<le> snd e \<and> nat (snd e) < length row"
  shows "\<exists>row'. assign_partitions walk [row] = Inr [row'] \<and> length row' = length row
           \<and> (\<forall>e\<in>set walk. row' ! nat (snd e) = fst e)
           \<and> (\<forall>j<length row. int j \<notin> snd ` set walk \<longrightarrow> row' ! j = row ! j)"
  using assms
proof (induction walk arbitrary: row)
  case Nil
  then show ?case by simp
next
  case (Cons e walk)
  obtain d g where e: "e = (d, g)" by (cases e)
  from Cons.prems(2) e have g: "0 \<le> g" "nat g < length row" by auto
  let ?row1 = "row[nat g := d]"
  have step: "Array2D_set [row] 0 g d = Inr [?row1]"
    using g by (simp add: Array2D_set_def)
  have d1: "distinct (map snd walk)" using Cons.prems(1) by simp
  have r1: "\<forall>x\<in>set walk. 0 \<le> snd x \<and> nat (snd x) < length ?row1"
    using Cons.prems(2) by simp
  from Cons.IH [OF d1 r1] obtain row' where
    run: "assign_partitions walk [?row1] = Inr [row']"
    and len: "length row' = length row"
    and hit: "\<forall>x\<in>set walk. row' ! nat (snd x) = fst x"
    and keep: "\<forall>j<length row. int j \<notin> snd ` set walk \<longrightarrow> row' ! j = ?row1 ! j"
    by auto
  have gfresh: "g \<notin> snd ` set walk"
    using Cons.prems(1) e by auto
  then have "int (nat g) \<notin> snd ` set walk" using g by simp
  with keep g have "row' ! nat g = ?row1 ! nat g" by blast
  then have here: "row' ! nat g = d" using g by simp
  have other: "\<forall>j<length row. int j \<notin> snd ` set (e # walk) \<longrightarrow> row' ! j = row ! j"
  proof (intro allI impI)
    fix j assume j: "j < length row" and nj: "int j \<notin> snd ` set (e # walk)"
    then have "int j \<noteq> g" and "int j \<notin> snd ` set walk" using e by auto
    then have "j \<noteq> nat g" and "row' ! j = ?row1 ! j" using keep j g by auto
    then show "row' ! j = row ! j" by simp
  qed
  from step run len hit here other e show ?case by simp
qed

text \<open>
  For a client as its constructor leaves it, the options of a sharded instance are built
  without failure and are those of one replica over all devices, in the order of the
  ordinals.
\<close>

lemma sharded_Compile_options:
  assumes "IfrtComputationClient p = Inr c0"
      and "client_ptr c = Some p"
      and "global_ordinals_map c = global_ordinals_map c0"
      and "distinct (map device_id (devices p))"
      and "mset (unordered_walk env (global_ordinals_map c)) = mset (global_ordinals_map c)"
      and "is_sharded inst"
  shows "\<exists>opts row.
           Compile_options c (unordered_walk env (global_ordinals_map c)) inst = Inr opts
           \<and> use_spmd_partitioning opts
           \<and> num_partitions opts = int (length (devices p))
           \<and> num_replicas opts = 1
           \<and> device_assignment opts = Some [row]
           \<and> length row = length (devices p)
           \<and> (\<forall>g<length (devices p).
                 map_at (global_ordinals_map c) (row ! g) = Inr (int g))
           \<and> row = map device_id (sort_key device_id (devices p))"
proof -
  let ?n = "length (devices p)"
  let ?ids = "map device_id (sort_key device_id (devices p))"
  let ?walk = "unordered_walk env (global_ordinals_map c)"
  have gom: "global_ordinals_map c = zip ?ids (map int [0..<?n])"
    using constructed_ordinals [OF assms(1,4)] assms(3) by simp
  have dids: "distinct ?ids"
    using assms(4) by (rule distinct_map_sort_key)
  have snds: "map snd (global_ordinals_map c) = map int [0..<?n]"
    using gom by simp
  have "mset (map snd ?walk) = mset (map snd (global_ordinals_map c))"
    using assms(5) by (metis mset_map)
  moreover have "distinct (map int [0..<?n])"
    by (simp add: distinct_map)
  ultimately have dwalk: "distinct (map snd ?walk)"
    using snds by (metis mset_eq_imp_distinct_iff)
  have sets: "set ?walk = set (global_ordinals_map c)"
    using assms(5) by (metis set_mset_mset)
  have inrange:
    "\<forall>e\<in>set ?walk. 0 \<le> snd e \<and> nat (snd e) < length (replicate ?n (- 1 :: int))"
  proof
    fix e assume "e \<in> set ?walk"
    then have "snd e \<in> set (map snd (global_ordinals_map c))" using sets by simp
    then have "snd e \<in> int ` {0..<?n}" using snds by simp
    then show "0 \<le> snd e \<and> nat (snd e) < length (replicate ?n (- 1 :: int))" by auto
  qed
  from assign_partitions_row [OF dwalk inrange] obtain row where
    run: "assign_partitions ?walk [replicate ?n (- 1)] = Inr [row]"
    and len: "length row = ?n"
    and hit: "\<forall>e\<in>set ?walk. row ! nat (snd e) = fst e"
    by auto
  have nth: "row ! g = ?ids ! g" if "g < ?n" for g
  proof -
    have "(?ids ! g, int g) \<in> set (zip ?ids (map int [0..<?n]))"
      using that by (auto simp: set_zip intro!: exI [of _ g])
    then have "(?ids ! g, int g) \<in> set ?walk" using sets gom by simp
    with hit have "row ! nat (snd (?ids ! g, int g)) = fst (?ids ! g, int g)" by blast
    then show ?thesis by simp
  qed
  have row: "row = ?ids"
    using len nth by (intro nth_equalityI) simp_all
  have ord: "map_at (global_ordinals_map c) (row ! g) = Inr (int g)" if "g < ?n" for g
  proof -
    have "map_of (zip ?ids (map int [0..<?n])) (?ids ! g) = Some (map int [0..<?n] ! g)"
      using that dids by (intro map_of_zip_nth) simp_all
    then show ?thesis using that row gom by (simp add: map_at_def)
  qed
  have da: "DeviceAssignment 1 (int ?n) = [replicate ?n (- 1)]"
    by (simp add: DeviceAssignment_def)
  have "Compile_options c ?walk inst =
          Inr (default_CompileOptions
                 \<lparr>use_spmd_partitioning := True,
                  allow_spmd_sharding_propagation_to_output :=
                    [instance_allow_spmd_sharding_propagation_to_output inst],
                  num_partitions := int ?n,
                  num_replicas := 1,
                  parameter_is_tupled_arguments :=
                    instance_parameter_is_tupled_arguments inst,
                  device_assignment := Some [row]\<rparr>)"
    using assms(2,6) run da by (simp add: Compile_options_def the_client_def Let_def)
  with len ord row show ?thesis by simp
qed

lemma Compile_options_cong:
  "client_ptr c' = client_ptr c \<Longrightarrow> Compile_options c' walk inst = Compile_options c walk inst"
  by (simp add: Compile_options_def the_client_def)

text \<open>
  What one turn of the loop of \<^verbatim>\<open>Compile\<close> returns is the compiler's answer to the options
  built for the instance; the turn leaves the device client and the ordinals alone.
\<close>

lemma Compile_instance_result:
  assumes "Compile_instance env c inst = Inr (x, c')"
  shows "client_ptr c' = client_ptr c \<and> global_ordinals_map c' = global_ordinals_map c
         \<and> computation_devices x = instance_devices inst
         \<and> (\<exists>opts. Compile_options c (unordered_walk env (global_ordinals_map c)) inst
                      = Inr opts
                    \<and> CompilerCompile env (ConvertHloToStableHlo env (computation inst)) opts
                      = Inr (executable x))"
  using assms
  by (auto simp: Compile_instance_def Let_def ConsumeValue_def bump_metrics_def
      split: sum.splits list.splits)

lemma Compile_loop_result:
  assumes "Compile_loop env c insts acc = Inr (cs, c')"
  shows "\<exists>new. cs = acc @ new
           \<and> list_all2
                (\<lambda>inst x.
                   computation_devices x = instance_devices inst
                   \<and> (\<exists>opts. Compile_options c (unordered_walk env (global_ordinals_map c))
                                 inst = Inr opts
                              \<and> CompilerCompile env
                                  (ConvertHloToStableHlo env (computation inst)) opts
                                = Inr (executable x)))
                insts new"
  using assms
proof (induction insts arbitrary: c acc)
  case Nil
  then show ?case by simp
next
  case (Cons inst insts)
  let ?P = "\<lambda>c inst x.
              computation_devices x = instance_devices inst
              \<and> (\<exists>opts. Compile_options c (unordered_walk env (global_ordinals_map c)) inst
                            = Inr opts
                         \<and> CompilerCompile env (ConvertHloToStableHlo env (computation inst))
                             opts
                           = Inr (executable x))"
  from Cons.prems obtain x c1 where
    one: "Compile_instance env c inst = Inr (x, c1)"
    and rest: "Compile_loop env c1 insts (acc @ [x]) = Inr (cs, c')"
    by (auto split: sum.splits prod.splits)
  from Compile_instance_result [OF one]
  have cp: "client_ptr c1 = client_ptr c"
    and gm: "global_ordinals_map c1 = global_ordinals_map c"
    and head: "?P c inst x"
    by simp_all
  have "Compile_options c1 walk y = Compile_options c walk y" for walk y
    using cp by (rule Compile_options_cong)
  then have same: "?P c1 = ?P c"
    using gm by simp
  from Cons.IH [OF rest] obtain new where
    cs: "cs = (acc @ [x]) @ new" and tail: "list_all2 (?P c1) insts new"
    by (elim exE conjE)
  from tail have "list_all2 (?P c) insts new" by (simp only: same)
  with head have "list_all2 (?P c) (inst # insts) (x # new)" by simp
  moreover have "cs = acc @ (x # new)" using cs by simp
  ultimately show ?case by (intro exI [of _ "x # new"] conjI)
qed

text \<open>
  C6. Take a client as its constructor leaves it, over a device client with \<open>N\<close> devices of
  distinct driver ids, and a walk of the ordinal map that visits every entry once. For a
  sharded instance \<^verbatim>\<open>Compile\<close> builds options that turn on SPMD partitioning, have
  partition count \<open>N\<close> and replica count 1, and carry a device assignment of one row and
  \<open>N\<close> columns whose entry at column \<open>g\<close> is the driver id with global ordinal \<open>g\<close> (the
  row is the driver ids in increasing order), and it is with these options that it calls
  the compiler: if the compiler rejects them, \<^verbatim>\<open>Compile\<close> of the instance fails with the
  compiler's message; and when \<^verbatim>\<open>Compile\<close> of a list of instances returns, it returns one
  computation for each instance, and the executable of each sharded instance is what the
  compiler returned for such options and the instance's program.
\<close>

theorem Compile_sharded_device_assignment:
  assumes "IfrtComputationClient p = Inr c0"
      and "client_ptr c = Some p"
      and "global_ordinals_map c = global_ordinals_map c0"
      and "distinct (map device_id (devices p))"
      and "mset (unordered_walk env (global_ordinals_map c)) = mset (global_ordinals_map c)"
  shows "(is_sharded inst \<longrightarrow>
           (\<exists>opts row.
              Compile_options c (unordered_walk env (global_ordinals_map c)) inst = Inr opts
              \<and> use_spmd_partitioning opts
              \<and> num_partitions opts = int (length (devices p))
              \<and> num_replicas opts = 1
              \<and> device_assignment opts = Some [row]
              \<and> length row = length (devices p)
              \<and> (\<forall>g<length (devices p).
                    map_at (global_ordinals_map c) (row ! g) = Inr (int g))
              \<and> row = map device_id (sort_key device_id (devices p))
              \<and> (\<forall>msg. CompilerCompile env (ConvertHloToStableHlo env (computation inst))
                           opts = Inl msg \<longrightarrow>
                         Compile env c [inst] = Inl (FatalError msg))))
         \<and> (Compile env c insts = Inr (cs, c') \<longrightarrow>
             length cs = length insts
             \<and> (\<forall>i<length insts. is_sharded (insts ! i) \<longrightarrow>
                   (\<exists>opts row.
                      use_spmd_partitioning opts
                      \<and> num_partitions opts = int (length (devices p))
                      \<and> num_replicas opts = 1
                      \<and> device_assignment opts = Some [row]
                      \<and> length row = length (devices p)
                      \<and> (\<forall>g<length (devices p).
                            map_at (global_ordinals_map c) (row ! g) = Inr (int g))
                      \<and> row = map device_id (sort_key device_id (devices p))
                      \<and> CompilerCompile env
                          (ConvertHloToStableHlo env (computation (insts ! i))) opts
                        = Inr (executable (cs ! i))
                      \<and> computation_devices (cs ! i) = instance_devices (insts ! i))))"
    (is "(_ \<longrightarrow> ?first) \<and> (_ \<longrightarrow> ?len \<and> ?each)")
proof -
  have first: ?first if sh: "is_sharded inst"
  proof -
    from sharded_Compile_options [OF assms sh] obtain opts row where
      o: "Compile_options c (unordered_walk env (global_ordinals_map c)) inst = Inr opts"
      and props: "use_spmd_partitioning opts"
        "num_partitions opts = int (length (devices p))"
        "num_replicas opts = 1" "device_assignment opts = Some [row]"
        "length row = length (devices p)"
        "\<forall>g<length (devices p). map_at (global_ordinals_map c) (row ! g) = Inr (int g)"
        "row = map device_id (sort_key device_id (devices p))"
      by (elim exE conjE)
    have "\<forall>msg. CompilerCompile env (ConvertHloToStableHlo env (computation inst)) opts
                   = Inl msg \<longrightarrow> Compile env c [inst] = Inl (FatalError msg)"
      using o by (simp add: Compile_def Compile_instance_def ConsumeValue_def Let_def)
    with o props show ?thesis
      by (intro exI [of _ opts] exI [of _ row] conjI)
  qed
  have second: "?len \<and> ?each" if ok: "Compile env c insts = Inr (cs, c')"
  proof
    from ok have "Compile_loop env c insts [] = Inr (cs, c')" by (simp add: Compile_def)
    from Compile_loop_result [OF this]
    have all: "list_all2
                  (\<lambda>inst x.
                     computation_devices x = instance_devices inst
                     \<and> (\<exists>opts. Compile_options c (unordered_walk env (global_ordinals_map c))
                                   inst = Inr opts
                                \<and> CompilerCompile env
                                    (ConvertHloToStableHlo env (computation inst)) opts
                                  = Inr (executable x)))
                  insts cs"
      by simp
    then show ?len
      by (simp add: list_all2_lengthD)
    show ?each
    proof (intro allI impI)
      fix i assume i: "i < length insts" and sh: "is_sharded (insts ! i)"
      from list_all2_nthD [OF all i] obtain opts where
        dv: "computation_devices (cs ! i) = instance_devices (insts ! i)"
        and o: "Compile_options c (unordered_walk env (global_ordinals_map c)) (insts ! i)
                  = Inr opts"
        and cc: "CompilerCompile env (ConvertHloToStableHlo env (computation (insts ! i)))
                   opts = Inr (executable (cs ! i))"
        by (elim exE conjE)
      from sharded_Compile_options [OF assms sh] obtain opts' row where
        o': "Compile_options c (unordered_walk env (global_ordinals_map c)) (insts ! i)
               = Inr opts'"
        and props: "use_spmd_partitioning opts'"
          "num_partitions opts' = int (length (devices p))"
          "num_replicas opts' = 1" "device_assignment opts' = Some [row]"
          "length row = length (devices p)"
          "\<forall>g<length (devices p). map_at (global_ordinals_map c) (row ! g) = Inr (int g)"
          "row = map device_id (sort_key device_id (devices p))"
        by (elim exE conjE)
      from o o' have eq: "opts' = opts" by simp
      from props cc dv
      show "\<exists>opts row.
              use_spmd_partitioning opts
              \<and> num_partitions opts = int (length (devices p))
              \<and> num_replicas opts = 1
              \<and> device_assignment opts = Some [row]
              \<and> length row = length (devices p)
              \<and> (\<forall>g<length (devices p).
                    map_at (global_ordinals_map c) (row ! g) = Inr (int g))
              \<and> row = map device_id (sort_key device_id (devices p))
              \<and> CompilerCompile env
                  (ConvertHloToStableHlo env (computation (insts ! i))) opts
                = Inr (executable (cs ! i))
              \<and> computation_devices (cs ! i) = instance_devices (insts ! i)"
        unfolding eq by (intro exI [of _ opts] exI [of _ row] conjI)
    qed
  qed
  from first second show ?thesis by blast
qed

theorem Compile_sharded_device_assignment_witness:
  "IfrtComputationClient example_pjrt = Inr example_client
   \<and> distinct (map device_id (devices example_pjrt))
   \<and> mset (unordered_walk example_compiling_env (global_ordinals_map example_client)) =
       mset (global_ordinals_map example_client)
   \<and> is_sharded example_instance
   \<and> Compile example_compiling_env example_client [example_instance] =
       Inr ([\<lparr>computation_proto = ''p0'', computation_devices = [''TPU:0'', ''TPU:1''],
              executable = \<lparr>executable_uid = 2, hlo_modules = Inr [''p0''],
                            output_shardings = Some [example_replicated]\<rparr>\<rparr>],
            example_client\<lparr>metrics := empty_Metrics
              \<lparr>StableHloCompileCounter := 1, CreateCompileHandlesCounter := 1\<rparr>\<rparr>)
   \<and> (\<exists>opts. num_partitions opts = 2 \<and> num_replicas opts = 1
              \<and> device_assignment opts = Some [[3, 7]]
              \<and> CompilerCompile example_compiling_env ''p0'' opts =
                  Inr \<lparr>executable_uid = 2, hlo_modules = Inr [''p0''],
                       output_shardings = Some [example_replicated]\<rparr>)
   \<and> Compile example_env example_client [example_instance] =
       Inl (FatalError ''no compiler'')"
proof -
  have a: "client_ptr example_client = Some example_pjrt"
    by (simp add: example_client_def)
  have b: "distinct (map device_id (devices example_pjrt))"
    by (simp add: example_pjrt_def example_tpu7_def example_tpu3_def)
  have w: "mset (unordered_walk example_compiling_env (global_ordinals_map example_client)) =
             mset (global_ordinals_map example_client)"
    by (simp add: example_compiling_env_def example_env_def)
  have w0: "mset (unordered_walk example_env (global_ordinals_map example_client)) =
             mset (global_ordinals_map example_client)"
    by (simp add: example_env_def)
  have s: "is_sharded example_instance"
    by (simp add: example_instance_def)
  have ids: "map device_id (sort_key device_id (devices example_pjrt)) = [3, 7]"
    by (simp add: example_pjrt_def example_tpu7_def example_tpu3_def)
  have n: "int (length (devices example_pjrt)) = 2"
    by (simp add: example_pjrt_def)
  have prog: "ConvertHloToStableHlo example_compiling_env (computation example_instance) = ''p0''"
    "ConvertHloToStableHlo example_env (computation example_instance) = ''p0''"
    by (simp_all add: example_compiling_env_def example_env_def example_instance_def)
  have run: "Compile example_compiling_env example_client [example_instance] =
       Inr ([\<lparr>computation_proto = ''p0'', computation_devices = [''TPU:0'', ''TPU:1''],
              executable = \<lparr>executable_uid = 2, hlo_modules = Inr [''p0''],
                            output_shardings = Some [example_replicated]\<rparr>\<rparr>],
            example_client\<lparr>metrics := empty_Metrics
              \<lparr>StableHloCompileCounter := 1, CreateCompileHandlesCounter := 1\<rparr>\<rparr>)"
    by (simp add: Compile_def Compile_instance_def Compile_options_def the_client_def
        example_client_def example_pjrt_def example_instance_def example_compiling_env_def
        example_env_def DeviceAssignment_def Array2D_set_def ConsumeValue_def
        default_CompileOptions_def bump_metrics_def empty_Metrics_def Let_def)
  note good = Compile_sharded_device_assignment
    [OF example_client_constructed a refl b w, of example_instance "[example_instance]"]
  from good run have "\<exists>opts row.
      num_partitions opts = int (length (devices example_pjrt))
      \<and> num_replicas opts = 1
      \<and> device_assignment opts = Some [row]
      \<and> row = map device_id (sort_key device_id (devices example_pjrt))
      \<and> CompilerCompile example_compiling_env
           (ConvertHloToStableHlo example_compiling_env (computation ([example_instance] ! 0)))
           opts
         = Inr (executable
                 ([\<lparr>computation_proto = ''p0'', computation_devices = [''TPU:0'', ''TPU:1''],
                    executable = \<lparr>executable_uid = 2, hlo_modules = Inr [''p0''],
                                  output_shardings = Some [example_replicated]\<rparr>\<rparr>] ! 0))"
    using s by fastforce
  with ids n prog have called: "\<exists>opts. num_partitions opts = 2 \<and> num_replicas opts = 1
              \<and> device_assignment opts = Some [[3, 7]]
              \<and> CompilerCompile example_compiling_env ''p0'' opts =
                  Inr \<lparr>executable_uid = 2, hlo_modules = Inr [''p0''],
                       output_shardings = Some [example_replicated]\<rparr>"
    by auto
  note bad = Compile_sharded_device_assignment
    [OF example_client_constructed a refl b w0, of example_instance]
  from bad s obtain opts where
    "\<forall>msg. CompilerCompile example_env
              (ConvertHloToStableHlo example_env (computation example_instance)) opts
            = Inl msg \<longrightarrow>
          Compile example_env example_client [example_instance] = Inl (FatalError msg)"
    by blast
  moreover have "CompilerCompile example_env x opts = Inl ''no compiler''" for x
    by (simp add: example_env_def)
  ultimately have failed: "Compile example_env example_client [example_instance] =
       Inl (FatalError ''no compiler'')"
    by blast
  from example_client_constructed b w s run called failed show ?thesis by blast
qed

section \<open>The outputs of a replicated execution\<close>

text \<open>
  C5. When \<^verbatim>\<open>ExecuteReplicated\<close> returns, the executable ran on the buffers of the arguments
  and reported one sharding for each of its results, and there is one handle for each
  result: handle \<open>i\<close> carries the device label "SPMD:0", the \<open>i\<close>-th reported sharding and
  the \<open>i\<close>-th result. If the executable reports no output shardings, the call fails; once
  the execution itself has succeeded it fails with the fatal check on
  \<^verbatim>\<open>GetOutputShardings().has_value()\<close>, and with the fatal check on the two sizes if the
  number of reported shardings differs from the number of results.
\<close>

theorem ExecuteReplicated_outputs:
  "(ExecuteReplicated env c cmp arguments devs options = Inr handles \<longrightarrow>
      (\<exists>ic results shardings.
         cmp = IfrtComputationObject ic \<and>
         Execute env (executable ic) (map buffer arguments)
           \<lparr>untuple_result = explode_tuple options, strict_shape_checking = True,
            multi_slice_config = None\<rparr> = Inr results \<and>
         output_shardings (executable ic) = Some shardings \<and>
         length shardings = length results \<and> length handles = length results \<and>
         (\<forall>i<length results.
            device (handles ! i) = ''SPMD:0'' \<and>
            sharding_opt (handles ! i) = Some (shardings ! i) \<and>
            buffer (handles ! i) = results ! i)))
   \<and> (output_shardings (executable ic') = None \<longrightarrow>
        (\<exists>e. ExecuteReplicated env c (IfrtComputationObject ic') arguments devs options
               = Inl e))
   \<and> (Execute env (executable ic') (map buffer arguments)
         \<lparr>untuple_result = explode_tuple options, strict_shape_checking = True,
          multi_slice_config = None\<rparr> = Inr results' \<longrightarrow>
        (output_shardings (executable ic') = None \<longrightarrow>
           ExecuteReplicated env c (IfrtComputationObject ic') arguments devs options =
             Inl (FatalError
               (''Check failed: '' @
                ''ifrt_computation.executable->GetOutputShardings().has_value()'')))
        \<and> (\<forall>shardings'. output_shardings (executable ic') = Some shardings' \<and>
              length shardings' \<noteq> length results' \<longrightarrow>
              ExecuteReplicated env c (IfrtComputationObject ic') arguments devs options =
                Inl (FatalError
                  ''Check failed: output_shardings.size() == results.size()'')))"
proof (intro conjI impI)
  assume ok: "ExecuteReplicated env c cmp arguments devs options = Inr handles"
  then obtain ic where ic: "cmp = IfrtComputationObject ic"
    by (cases cmp) (simp_all add: ExecuteReplicated_def)
  let ?opts = "\<lparr>untuple_result = explode_tuple options, strict_shape_checking = True,
                 multi_slice_config = None\<rparr>"
  from ok ic obtain results where
    ex: "Execute env (executable ic) (map buffer arguments) ?opts = Inr results"
    by (cases "Execute env (executable ic) (map buffer arguments) ?opts")
       (simp_all add: ExecuteReplicated_def value_or_die_def Let_def)
  from ok ic ex obtain shardings where
    sh: "output_shardings (executable ic) = Some shardings"
    by (cases "output_shardings (executable ic)")
       (simp_all add: ExecuteReplicated_def value_or_die_def Let_def)
  from ok ic ex sh have len: "length shardings = length results"
    by (simp add: ExecuteReplicated_def value_or_die_def Let_def split: if_splits)
  from ok ic ex sh len have hs:
    "handles = map (\<lambda>i. IfrtData_of_buffer (shape_of env) ''SPMD:0'' (results ! i)
                          (Some (shardings ! i))) [0..<length results]"
    by (simp add: ExecuteReplicated_def value_or_die_def Let_def)
  then have "length handles = length results" by simp
  moreover from hs have "\<forall>i<length results.
            device (handles ! i) = ''SPMD:0'' \<and>
            sharding_opt (handles ! i) = Some (shardings ! i) \<and>
            buffer (handles ! i) = results ! i"
    by (simp add: IfrtData_of_buffer_def)
  ultimately show "\<exists>ic results shardings.
         cmp = IfrtComputationObject ic \<and>
         Execute env (executable ic) (map buffer arguments) ?opts = Inr results \<and>
         output_shardings (executable ic) = Some shardings \<and>
         length shardings = length results \<and> length handles = length results \<and>
         (\<forall>i<length results.
            device (handles ! i) = ''SPMD:0'' \<and>
            sharding_opt (handles ! i) = Some (shardings ! i) \<and>
            buffer (handles ! i) = results ! i)"
    using ic ex sh len by blast
qed (auto simp: ExecuteReplicated_def value_or_die_def Let_def split: sum.splits)

theorem ExecuteReplicated_outputs_witness:
  "ExecuteReplicated example_env example_client
     (IfrtComputationObject
        (example_executable 1 (Some [example_sharding, example_replicated])))
     [example_handle 1] [''TPU:0'', ''TPU:1''] \<lparr>explode_tuple = True\<rparr> =
     Inr [\<lparr>device = ''SPMD:0'', shape = example_shape,
           buffer = Some (example_array 1 [example_tpu3]),
           sharding_opt = Some example_sharding\<rparr>,
          \<lparr>device = ''SPMD:0'', shape = example_shape,
           buffer = Some (example_array 1 [example_tpu3]),
           sharding_opt = Some example_replicated\<rparr>]
   \<and> output_shardings (executable (example_executable 1 None)) = None
   \<and> Execute example_env (executable (example_executable 1 None))
        (map buffer [example_handle 1])
        \<lparr>untuple_result = True, strict_shape_checking = True, multi_slice_config = None\<rparr> =
       Inr [Some (example_array 1 [example_tpu3]), Some (example_array 1 [example_tpu3])]
   \<and> ExecuteReplicated example_env example_client
        (IfrtComputationObject (example_executable 1 None))
        [example_handle 1] [''TPU:0'', ''TPU:1''] \<lparr>explode_tuple = True\<rparr> =
       Inl (FatalError
         ''Check failed: ifrt_computation.executable->GetOutputShardings().has_value()'')
   \<and> output_shardings (executable (example_executable 2 (Some [example_sharding]))) =
       Some [example_sharding]
   \<and> ExecuteReplicated example_env example_client
        (IfrtComputationObject (example_executable 2 (Some [example_sharding])))
        [example_handle 1] [''TPU:0'', ''TPU:1''] \<lparr>explode_tuple = True\<rparr> =
       Inl (FatalError ''Check failed: output_shardings.size() == results.size()'')"
proof -
  have run: "ExecuteReplicated example_env example_client
     (IfrtComputationObject
        (example_executable 1 (Some [example_sharding, example_replicated])))
     [example_handle 1] [''TPU:0'', ''TPU:1''] \<lparr>explode_tuple = True\<rparr> =
     Inr [\<lparr>device = ''SPMD:0'', shape = example_shape,
           buffer = Some (example_array 1 [example_tpu3]),
           sharding_opt = Some example_sharding\<rparr>,
          \<lparr>device = ''SPMD:0'', shape = example_shape,
           buffer = Some (example_array 1 [example_tpu3]),
           sharding_opt = Some example_replicated\<rparr>]"
    by (simp add: ExecuteReplicated_def example_executable_def example_env_def
        value_or_die_def example_handle_def IfrtData_of_buffer_def example_array_def
        example_shape_def upt_rec)
  have none: "output_shardings (executable (example_executable 1 None)) = None"
    by (simp add: example_executable_def)
  have ex: "Execute example_env (executable (example_executable 1 None))
        (map buffer [example_handle 1])
        \<lparr>untuple_result = True, strict_shape_checking = True, multi_slice_config = None\<rparr> =
       Inr [Some (example_array 1 [example_tpu3]), Some (example_array 1 [example_tpu3])]"
    by (simp add: example_executable_def example_env_def example_handle_def)
  from ExecuteReplicated_outputs
         [of example_env example_client _ "[example_handle 1]" "[''TPU:0'', ''TPU:1'']"
             "\<lparr>explode_tuple = True\<rparr>" _ "example_executable 1 None"
             "[Some (example_array 1 [example_tpu3]), Some (example_array 1 [example_tpu3])]"]
       none ex
  have "ExecuteReplicated example_env example_client
        (IfrtComputationObject (example_executable 1 None))
        [example_handle 1] [''TPU:0'', ''TPU:1''] \<lparr>explode_tuple = True\<rparr> =
       Inl (FatalError
         ''Check failed: ifrt_computation.executable->GetOutputShardings().has_value()'')"
    by simp
  note missing = this
  have one: "output_shardings (executable (example_executable 2 (Some [example_sharding]))) =
       Some [example_sharding]"
    by (simp add: example_executable_def)
  have ex2: "Execute example_env (executable (example_executable 2 (Some [example_sharding])))
        (map buffer [example_handle 1])
        \<lparr>untuple_result = True, strict_shape_checking = True, multi_slice_config = None\<rparr> =
       Inr [Some (example_array 1 [example_tpu3]), Some (example_array 1 [example_tpu3])]"
    by (simp add: example_executable_def example_env_def example_handle_def)
  from ExecuteReplicated_outputs
         [of example_env example_client _ "[example_handle 1]" "[''TPU:0'', ''TPU:1'']"
             "\<lparr>explode_tuple = True\<rparr>" _
             "example_executable 2 (Some [example_sharding])"
             "[Some (example_array 1 [example_tpu3]), Some (example_array 1 [example_tpu3])]"]
       one ex2
  have mismatch: "ExecuteReplicated example_env example_client
        (IfrtComputationObject (example_executable 2 (Some [example_sharding])))
        [example_handle 1] [''TPU:0'', ''TPU:1''] \<lparr>explode_tuple = True\<rparr> =
       Inl (FatalError ''Check failed: output_shardings.size() == results.size()'')"
    by simp
  from run none ex missing one mismatch show ?thesis by blast
qed

section \<open>A failed copy to the host\<close>

lemma TransferFromServer_loop_append:
  "TransferFromServer_loop env c (pre @ rest) literals tot =
     (case TransferFromServer_loop env c pre literals tot of
        Inl e \<Rightarrow> Inl e
      | Inr (l1, t1, c1) \<Rightarrow> TransferFromServer_loop env c1 rest l1 t1)"
  by (induction pre arbitrary: c literals tot)
     (auto simp: Let_def split: sum.splits prod.splits option.splits)

text \<open>A handle whose copy fails makes the loop fail, wherever it stands in the list.\<close>

lemma TransferFromServer_loop_copy_fails:
  assumes "handle \<in> set handles"
      and "\<forall>c' a c''. ReplicateShardedData env c' handle = Inr (Some a, c'') \<longrightarrow>
             (\<forall>strides. \<exists>msg. CopyToHostBuffer env a strides = Inl msg)"
  shows "\<exists>e. TransferFromServer_loop env c handles literals tot = Inl e"
  using assms(1)
proof (induction handles arbitrary: c literals tot)
  case Nil
  then show ?case by simp
next
  case (Cons h hs)
  show ?case
  proof (cases "h = handle")
    case True
    show ?thesis
    proof (cases "ReplicateShardedData env c handle")
      case (Inl e)
      with True show ?thesis by simp
    next
      case (Inr r)
      obtain ra c1 where r: "r = (ra, c1)" by (cases r)
      show ?thesis
      proof (cases ra)
        case None
        with True Inr r show ?thesis
          by (simp add: Let_def XLA_CHECK_OK_def split: sum.splits)
      next
        case (Some a)
        with Inr r assms(2)
        have "\<forall>strides. \<exists>msg. CopyToHostBuffer env a strides = Inl msg" by blast
        then have nocopy: "XLA_CHECK_OK (CopyToHostBuffer env a strides) \<noteq> Inr v"
          for strides v
          by (metis XLA_CHECK_OK_def sum.simps(5) sum.distinct(1))
        from True Inr r Some show ?thesis
          by (auto simp: Let_def nocopy split: sum.splits)
      qed
    qed
  next
    case False
    with Cons.prems have "handle \<in> set hs" by simp
    from Cons.IH [OF this] show ?thesis
      by (auto simp: Let_def split: sum.splits prod.splits option.splits)
  qed
qed

text \<open>
  When the replication of every handle of the list goes through, the only failures left
  in the loop are the two statuses it checks, and a handle whose copy fails makes the loop
  end in one of them.
\<close>

lemma TransferFromServer_loop_copy_propagates:
  assumes "handle \<in> set handles"
      and "\<forall>h\<in>set handles. \<forall>c'. \<exists>a c''. ReplicateShardedData env c' h = Inr (Some a, c'')"
      and "\<forall>c' a c''. ReplicateShardedData env c' handle = Inr (Some a, c'') \<longrightarrow>
             (\<forall>strides. \<exists>msg. CopyToHostBuffer env a strides = Inl msg)"
  shows "\<exists>msg. TransferFromServer_loop env c handles literals tot = Inl (StatusError msg)"
  using assms(1,2)
proof (induction handles arbitrary: c literals tot)
  case Nil
  then show ?case by simp
next
  case (Cons h hs)
  from Cons.prems(2) obtain a c1 where
    rep: "ReplicateShardedData env c h = Inr (Some a, c1)"
    by (metis list.set_intros(1))
  let ?host = "DeviceShapeToHostShape env (shape h)"
  show ?case
  proof (cases "ByteStrides env ?host")
    case (Inl m)
    with rep show ?thesis by (simp add: Let_def XLA_CHECK_OK_def)
  next
    case (Inr strides)
    show ?thesis
    proof (cases "CopyToHostBuffer env a strides")
      case (Inl m)
      with rep Inr show ?thesis by (simp add: Let_def XLA_CHECK_OK_def)
    next
      case copied: (Inr bytes)
      have "h \<noteq> handle"
      proof
        assume "h = handle"
        with rep assms(3) have "\<exists>msg. CopyToHostBuffer env a strides = Inl msg" by blast
        with copied show False by simp
      qed
      with Cons.prems(1) have mem: "handle \<in> set hs" by simp
      have reps: "\<forall>h\<in>set hs. \<forall>c'. \<exists>a c''. ReplicateShardedData env c' h = Inr (Some a, c'')"
        using Cons.prems(2) by simp
      from Cons.IH [OF mem reps] rep Inr copied show ?thesis
        by (simp add: Let_def XLA_CHECK_OK_def)
    qed
  qed
qed

text \<open>
  C2. If the copy to the host cannot succeed for some handle of the list,
  \<^verbatim>\<open>TransferFromServer\<close> fails and returns no literals. When the loop reaches a handle whose
  replication and byte strides are fine and whose copy ends in an error status, the call
  fails with that status, handed on to the caller as it is, whatever handles come after
  it; the failure is not a fatal check. For a list of handles whose replication goes
  through, as it does for every handle on a single device, a handle whose copy fails makes
  the call end in a propagated status.
\<close>

theorem TransferFromServer_copy_failure_propagates:
  "(handle \<in> set handles \<and>
    (\<forall>c' a c''. ReplicateShardedData env c' handle = Inr (Some a, c'') \<longrightarrow>
       (\<forall>strides. \<exists>msg. CopyToHostBuffer env a strides = Inl msg)) \<longrightarrow>
    (\<exists>e. TransferFromServer env c handles = Inl e)
    \<and> ((\<forall>h\<in>set handles. \<forall>c'. \<exists>a c''. ReplicateShardedData env c' h = Inr (Some a, c''))
        \<longrightarrow> (\<exists>msg. TransferFromServer env c handles = Inl (StatusError msg))))
   \<and> (TransferFromServer_loop env c pre [] 0 = Inr (lits, tot, c1) \<and>
       ReplicateShardedData env c1 h = Inr (Some a1, c2) \<and>
       ByteStrides env (DeviceShapeToHostShape env (shape h)) = Inr strides1 \<and>
       CopyToHostBuffer env a1 strides1 = Inl msg1 \<longrightarrow>
       TransferFromServer env c (pre @ h # post) = Inl (StatusError msg1)
       \<and> propagated (StatusError msg1)
       \<and> (\<forall>m. TransferFromServer env c (pre @ h # post) \<noteq> Inl (FatalError m)))"
proof (intro conjI impI)
  assume a: "handle \<in> set handles \<and>
    (\<forall>c' a c''. ReplicateShardedData env c' handle = Inr (Some a, c'') \<longrightarrow>
       (\<forall>strides. \<exists>msg. CopyToHostBuffer env a strides = Inl msg))"
  then obtain e where e: "TransferFromServer_loop env c handles [] 0 = Inl e"
    using TransferFromServer_loop_copy_fails [of handle handles env c "[]" 0] by blast
  then show "\<exists>e. TransferFromServer env c handles = Inl e"
    by (simp add: TransferFromServer_def)
next
  assume a: "handle \<in> set handles \<and>
    (\<forall>c' a c''. ReplicateShardedData env c' handle = Inr (Some a, c'') \<longrightarrow>
       (\<forall>strides. \<exists>msg. CopyToHostBuffer env a strides = Inl msg))"
    and r: "\<forall>h\<in>set handles. \<forall>c'. \<exists>a c''. ReplicateShardedData env c' h = Inr (Some a, c'')"
  then obtain msg where "TransferFromServer_loop env c handles [] 0 = Inl (StatusError msg)"
    using TransferFromServer_loop_copy_propagates [of handle handles env c "[]" 0] by blast
  then show "\<exists>msg. TransferFromServer env c handles = Inl (StatusError msg)"
    by (simp add: TransferFromServer_def)
next
  assume b: "TransferFromServer_loop env c pre [] 0 = Inr (lits, tot, c1) \<and>
       ReplicateShardedData env c1 h = Inr (Some a1, c2) \<and>
       ByteStrides env (DeviceShapeToHostShape env (shape h)) = Inr strides1 \<and>
       CopyToHostBuffer env a1 strides1 = Inl msg1"
  then have "TransferFromServer_loop env c1 (h # post) lits tot = Inl (StatusError msg1)"
    by (simp add: Let_def XLA_CHECK_OK_def)
  with b have "TransferFromServer_loop env c (pre @ h # post) [] 0 = Inl (StatusError msg1)"
    by (simp add: TransferFromServer_loop_append)
  then have res: "TransferFromServer env c (pre @ h # post) = Inl (StatusError msg1)"
    by (simp add: TransferFromServer_def)
  show "TransferFromServer env c (pre @ h # post) = Inl (StatusError msg1)" by (rule res)
  show "propagated (StatusError msg1)" by (simp add: propagated_def)
  show "\<forall>m. TransferFromServer env c (pre @ h # post) \<noteq> Inl (FatalError m)"
    using res by simp
qed

theorem TransferFromServer_copy_failure_propagates_witness:
  "example_handle 13 \<in> set [example_handle 1, example_handle 13, example_handle 2]
   \<and> CopyToHostBuffer example_env (example_array 13 [example_tpu3]) [4] =
       Inl ''copy to host failed''
   \<and> TransferFromServer_loop example_env example_client [example_handle 1] [] 0 =
       Inr ([\<lparr>literal_shape = example_shape, literal_data = [0, 0, 0, 0]\<rparr>], 16,
            example_client)
   \<and> (\<exists>msg. TransferFromServer example_env example_client
             [example_handle 1, example_handle 13, example_handle 2] = Inl (StatusError msg))
   \<and> TransferFromServer example_env example_client
       ([example_handle 1] @ example_handle 13 # [example_handle 2]) =
       Inl (StatusError ''copy to host failed'')"
proof -
  have mem: "example_handle 13 \<in> set [example_handle 1, example_handle 13, example_handle 2]"
    by simp
  have rep: "ReplicateShardedData example_env c' (example_handle uid) =
               Inr (Some (example_array uid [example_tpu3]), c')" for c' uid
    by (simp add: ReplicateShardedData_def example_handle_def example_array_def)
  have copy: "CopyToHostBuffer example_env (example_array 13 [example_tpu3]) strides =
                Inl ''copy to host failed''" for strides
    by (simp add: example_env_def example_array_def)
  have hyp: "\<forall>c' a c''. ReplicateShardedData example_env c' (example_handle 13) =
                 Inr (Some a, c'') \<longrightarrow>
               (\<forall>strides. \<exists>msg. CopyToHostBuffer example_env a strides = Inl msg)"
    using rep copy by auto
  have reps: "\<forall>h\<in>set [example_handle 1, example_handle 13, example_handle 2].
                \<forall>c'. \<exists>a c''. ReplicateShardedData example_env c' h = Inr (Some a, c'')"
    using rep by simp
  have pre: "TransferFromServer_loop example_env example_client [example_handle 1] [] 0 =
       Inr ([\<lparr>literal_shape = example_shape, literal_data = [0, 0, 0, 0]\<rparr>], 16,
            example_client)"
    by (simp add: ReplicateShardedData_def example_handle_def example_array_def
        example_env_def XLA_CHECK_OK_def numeral_eq_Suc)
  have strides: "ByteStrides example_env
                   (DeviceShapeToHostShape example_env (shape (example_handle 13))) = Inr [4]"
    by (simp add: example_env_def)
  note inst = TransferFromServer_copy_failure_propagates
    [of "example_handle 13" "[example_handle 1, example_handle 13, example_handle 2]"
        example_env example_client "[example_handle 1]"
        "[\<lparr>literal_shape = example_shape, literal_data = [0, 0, 0, 0]\<rparr>]" 16
        example_client "example_handle 13" "example_array 13 [example_tpu3]" example_client
        "[4]" "''copy to host failed''" "[example_handle 2]"]
  from inst mem hyp reps
  have general: "\<exists>msg. TransferFromServer example_env example_client
             [example_handle 1, example_handle 13, example_handle 2] = Inl (StatusError msg)"
    by blast
  from inst pre rep [of example_client 13] strides copy [of "[4]"]
  have exact: "TransferFromServer example_env example_client
       ([example_handle 1] @ example_handle 13 # [example_handle 2]) =
       Inl (StatusError ''copy to host failed'')"
    by blast
  from mem copy [of "[4]"] pre general exact show ?thesis by blast
qed

end
